theory Spec2Isabelle
  imports Main
begin

section \<open>Data model (app/models.py)\<close>

text \<open>
  The two enumerations of \<^verbatim>\<open>models.py\<close>. The constructors carry the
  class name, as in \<^verbatim>\<open>TyreCondition.bad\<close> and \<^verbatim>\<open>UserRole.admin\<close>.
\<close>

datatype TyreCondition = TyreCondition_good | TyreCondition_bad

datatype UserRole = UserRole_user | UserRole_admin

text \<open>
  One record per mapped class, one field per column. Integer columns are Python
  integers (\<open>int\<close>), \<^verbatim>\<open>String\<close>/\<^verbatim>\<open>Text\<close> columns are strings,
  the nullable \<^verbatim>\<open>notes\<close> column is an option. A \<^verbatim>\<open>DateTime\<close> value is
  a point on a linear time axis, represented by an integer time stamp.
\<close>

record User =
  User_id :: int
  User_name :: string
  User_email :: string
  User_phone :: string
  User_password_hash :: string
  User_role :: UserRole

record Car =
  Car_id :: int
  Car_user_id :: int
  Car_make :: string
  Car_model :: string
  Car_year :: int
  Car_plate :: string

record Inspection =
  Inspection_id :: int
  Inspection_car_id :: int
  Inspection_date :: int
  Inspection_frontLeft :: TyreCondition
  Inspection_frontRight :: TyreCondition
  Inspection_rearLeft :: TyreCondition
  Inspection_rearRight :: TyreCondition
  Inspection_notes :: "string option"

text \<open>
  The persistent state behind a \<^verbatim>\<open>Session\<close>: the three tables
  \<^verbatim>\<open>users\<close>, \<^verbatim>\<open>cars\<close> and \<^verbatim>\<open>inspections\<close>, each a list of rows in
  storage order.
\<close>

record Session =
  users :: "User list"
  cars :: "Car list"
  inspections :: "Inspection list"

section \<open>Request and response schemas (app/schemas.py)\<close>

record UserCreate =
  UserCreate_name :: string
  UserCreate_email :: string
  UserCreate_phone :: string
  UserCreate_role :: UserRole
  UserCreate_password :: string

text \<open>
  The JSON body of a registration request before validation: \<^verbatim>\<open>role\<close> may be
  omitted, and \<^verbatim>\<open>UserBase\<close> declares \<^verbatim>\<open>role: UserRole = UserRole.user\<close>.
\<close>

record UserCreate_body =
  body_name :: string
  body_email :: string
  body_phone :: string
  body_role :: "UserRole option"
  body_password :: string

text \<open>
  Validation of the body against \<^verbatim>\<open>UserCreate\<close>. The field \<^verbatim>\<open>email: EmailStr\<close> is
  checked and normalised by the validator of the \<^verbatim>\<open>pydantic\<close> package, which is outside
  the repository: it is the argument \<open>validate_email\<close>, giving the normalised address, or
  \<open>None\<close> for a string that is no address. A body that fails validation gives no
  \<^verbatim>\<open>UserCreate\<close>, and the handler does not run.
\<close>

definition UserCreate_validate ::
  "(string \<Rightarrow> string option) \<Rightarrow> UserCreate_body \<Rightarrow> UserCreate option" where
  "UserCreate_validate validate_email b =
     (case validate_email (body_email b) of
        None \<Rightarrow> None
      | Some address \<Rightarrow>
          Some \<lparr>UserCreate_name = body_name b,
                UserCreate_email = address,
                UserCreate_phone = body_phone b,
                UserCreate_role = (case body_role b of None \<Rightarrow> UserRole_user | Some r \<Rightarrow> r),
                UserCreate_password = body_password b\<rparr>)"

record UserOut =
  UserOut_name :: string
  UserOut_email :: string
  UserOut_phone :: string
  UserOut_role :: UserRole
  UserOut_id :: int

text \<open>
  \<^verbatim>\<open>response_model=schemas.UserOut\<close> with \<^verbatim>\<open>from_attributes = True\<close>: the
  response is built from the attributes of the returned row that \<^verbatim>\<open>UserOut\<close>
  declares.
\<close>

definition UserOut_from_attributes :: "User \<Rightarrow> UserOut" where
  "UserOut_from_attributes u =
     \<lparr>UserOut_name = User_name u,
      UserOut_email = User_email u,
      UserOut_phone = User_phone u,
      UserOut_role = User_role u,
      UserOut_id = User_id u\<rparr>"

record CarCreate =
  CarCreate_make :: string
  CarCreate_model :: string
  CarCreate_year :: int
  CarCreate_plate :: string

record InspectionCreate =
  InspectionCreate_date :: int
  InspectionCreate_frontLeft :: TyreCondition
  InspectionCreate_frontRight :: TyreCondition
  InspectionCreate_rearLeft :: TyreCondition
  InspectionCreate_rearRight :: TyreCondition
  InspectionCreate_notes :: "string option"

record MeResponse =
  MeResponse_id :: int
  MeResponse_name :: string
  MeResponse_email :: string
  MeResponse_phone :: string
  MeResponse_role :: UserRole
  MeResponse_cars_assigned :: int
  MeResponse_inspections_total :: int
  MeResponse_failed_cars :: int

section \<open>Errors and queries\<close>

text \<open>\<^verbatim>\<open>HTTPException(status_code, detail)\<close>.\<close>

datatype HTTPException = HTTPException (status_code: int) (detail: string)

text \<open>
  What a route answers instead of a response: the exception its handler raised, or, when the
  body fails validation, the framework's \<^verbatim>\<open>RequestValidationError\<close>, answered with
  status 422.
\<close>

datatype route_error = RequestValidationError | Raised HTTPException

definition response_status :: "route_error \<Rightarrow> int" where
  "response_status e = (case e of RequestValidationError \<Rightarrow> 422 | Raised x \<Rightarrow> status_code x)"

text \<open>
  \<^verbatim>\<open>db.get(Model, key)\<close>: the row with that primary key, or \<^verbatim>\<open>None\<close>.
  \<^verbatim>\<open>query.first()\<close>: the first row of a result, or \<^verbatim>\<open>None\<close>.
\<close>

definition db_get :: "('r \<Rightarrow> int) \<Rightarrow> 'r list \<Rightarrow> int \<Rightarrow> 'r option" where
  "db_get pk rows k = find (\<lambda>r. pk r = k) rows"

definition first :: "'r list \<Rightarrow> 'r option" where
  "first rows = (case rows of [] \<Rightarrow> None | r # _ \<Rightarrow> Some r)"

text \<open>
  \<^verbatim>\<open>order_by(models.Inspection.date.desc())\<close>: the rows by decreasing date. Rows
  with equal dates keep their storage order (the source leaves their order to the
  store).
\<close>

definition order_by_date_desc :: "Inspection list \<Rightarrow> Inspection list" where
  "order_by_date_desc rows = sort_key (\<lambda>i. - Inspection_date i) rows"

section \<open>Handlers (app/main.py)\<close>

text \<open>
  Every handler takes the session state and returns the response or the raised
  \<^verbatim>\<open>HTTPException\<close>; a handler that writes also returns the state after it. The
  dependency \<^verbatim>\<open>get_current_user\<close> has run before the body: the handlers take the
  resolved \<^verbatim>\<open>current_user\<close>. The primary key the store assigns to an inserted row
  is the argument \<open>new_id\<close>; \<^verbatim>\<open>hash_password\<close> of \<^verbatim>\<open>app/auth.py\<close> is the
  argument \<open>hash_password\<close>.
\<close>

definition register ::
  "(string \<Rightarrow> string) \<Rightarrow> int \<Rightarrow> UserCreate \<Rightarrow> Session \<Rightarrow> (HTTPException + User) \<times> Session" where
  "register hash_password new_id usr db =
     (case first (filter (\<lambda>u. User_email u = UserCreate_email usr) (users db)) of
        Some existing \<Rightarrow> (Inl (HTTPException 400 ''Email already in use''), db)
      | None \<Rightarrow>
          (let db_user = \<lparr>User_id = new_id,
                          User_name = UserCreate_name usr,
                          User_email = UserCreate_email usr,
                          User_phone = UserCreate_phone usr,
                          User_password_hash = hash_password (UserCreate_password usr),
                          User_role = UserCreate_role usr\<rparr>
           in (Inr db_user, db\<lparr>users := users db @ [db_user]\<rparr>)))"

text \<open>The route \<^verbatim>\<open>POST /register\<close>: body validation, handler, response model.\<close>

definition post_register ::
  "(string \<Rightarrow> string option) \<Rightarrow> (string \<Rightarrow> string) \<Rightarrow> int \<Rightarrow> UserCreate_body \<Rightarrow> Session
     \<Rightarrow> (route_error + UserOut) \<times> Session" where
  "post_register validate_email hash_password new_id b db =
     (case UserCreate_validate validate_email b of
        None \<Rightarrow> (Inl RequestValidationError, db)
      | Some usr \<Rightarrow>
          (case register hash_password new_id usr db of
             (Inl e, db') \<Rightarrow> (Inl (Raised e), db')
           | (Inr db_user, db') \<Rightarrow> (Inr (UserOut_from_attributes db_user), db')))"

text \<open>The body of the loop of \<^verbatim>\<open>me\<close> for one car: whether it adds one to
  \<^verbatim>\<open>failed_cars\<close>.\<close>

definition car_failed :: "Session \<Rightarrow> Car \<Rightarrow> bool" where
  "car_failed db car =
     (case first (order_by_date_desc
                    (filter (\<lambda>i. Inspection_car_id i = Car_id car) (inspections db))) of
        None \<Rightarrow> False
      | Some last' \<Rightarrow>
          Inspection_frontLeft last' = TyreCondition_bad
          \<or> Inspection_frontRight last' = TyreCondition_bad
          \<or> Inspection_rearLeft last' = TyreCondition_bad
          \<or> Inspection_rearRight last' = TyreCondition_bad)"

fun count_failed :: "Session \<Rightarrow> Car list \<Rightarrow> int \<Rightarrow> int" where
  "count_failed db [] failed_cars = failed_cars"
| "count_failed db (car # rest) failed_cars =
     count_failed db rest (if car_failed db car then failed_cars + 1 else failed_cars)"

definition me :: "User \<Rightarrow> Session \<Rightarrow> MeResponse" where
  "me current_user db =
     (let cars_q = filter (\<lambda>c. Car_user_id c = User_id current_user) (cars db);
          cars_assigned = int (length cars_q);
          inspections_total =
            (if cars_q \<noteq> []
             then int (length (filter (\<lambda>i. Inspection_car_id i \<in> set (map Car_id cars_q))
                                      (inspections db)))
             else 0);
          failed_cars = count_failed db cars_q 0
      in \<lparr>MeResponse_id = User_id current_user,
          MeResponse_name = User_name current_user,
          MeResponse_email = User_email current_user,
          MeResponse_phone = User_phone current_user,
          MeResponse_role = User_role current_user,
          MeResponse_cars_assigned = cars_assigned,
          MeResponse_inspections_total = inspections_total,
          MeResponse_failed_cars = failed_cars\<rparr>)"

definition list_cars :: "User \<Rightarrow> Session \<Rightarrow> Car list" where
  "list_cars current_user db =
     (if User_role current_user = UserRole_admin then cars db
      else filter (\<lambda>c. Car_user_id c = User_id current_user) (cars db))"

definition create_car :: "int \<Rightarrow> CarCreate \<Rightarrow> User \<Rightarrow> Session \<Rightarrow> Car \<times> Session" where
  "create_car new_id car current_user db =
     (let db_car = \<lparr>Car_id = new_id,
                    Car_user_id = User_id current_user,
                    Car_make = CarCreate_make car,
                    Car_model = CarCreate_model car,
                    Car_year = CarCreate_year car,
                    Car_plate = CarCreate_plate car\<rparr>
      in (db_car, db\<lparr>cars := cars db @ [db_car]\<rparr>))"

definition get_car :: "int \<Rightarrow> User \<Rightarrow> Session \<Rightarrow> HTTPException + Car" where
  "get_car car_id current_user db =
     (case db_get Car_id (cars db) car_id of
        None \<Rightarrow> Inl (HTTPException 404 ''Car not found'')
      | Some car \<Rightarrow>
          if User_role current_user \<noteq> UserRole_admin \<and> Car_user_id car \<noteq> User_id current_user
          then Inl (HTTPException 403 ''Not your car'')
          else Inr car)"

text \<open>
  \<^verbatim>\<open>setattr\<close> over \<^verbatim>\<open>car_in.model_dump()\<close> writes the four fields of
  \<^verbatim>\<open>CarCreate\<close>; the commit stores the row under its primary key. A primary key
  names one row of its table; an update replaces, and a delete removes, the rows with the key.
\<close>

definition update_car ::
  "int \<Rightarrow> CarCreate \<Rightarrow> User \<Rightarrow> Session \<Rightarrow> (HTTPException + Car) \<times> Session" where
  "update_car car_id car_in current_user db =
     (case db_get Car_id (cars db) car_id of
        None \<Rightarrow> (Inl (HTTPException 404 ''Car not found''), db)
      | Some car \<Rightarrow>
          if User_role current_user \<noteq> UserRole_admin \<and> Car_user_id car \<noteq> User_id current_user
          then (Inl (HTTPException 403 ''Not your car''), db)
          else
            (let car' = car\<lparr>Car_make := CarCreate_make car_in,
                           Car_model := CarCreate_model car_in,
                           Car_year := CarCreate_year car_in,
                           Car_plate := CarCreate_plate car_in\<rparr>
             in (Inr car',
                 db\<lparr>cars := map (\<lambda>c. if Car_id c = car_id then car' else c) (cars db)\<rparr>)))"

text \<open>
  \<^verbatim>\<open>db.delete(car)\<close> removes the row and, by the relationship
  \<^verbatim>\<open>cascade="all, delete-orphan"\<close> of \<^verbatim>\<open>Car.inspections\<close>, its inspections.
\<close>

definition delete_car ::
  "int \<Rightarrow> User \<Rightarrow> Session \<Rightarrow> (HTTPException + string) \<times> Session" where
  "delete_car car_id current_user db =
     (case db_get Car_id (cars db) car_id of
        None \<Rightarrow> (Inl (HTTPException 404 ''Car not found''), db)
      | Some car \<Rightarrow>
          if User_role current_user \<noteq> UserRole_admin \<and> Car_user_id car \<noteq> User_id current_user
          then (Inl (HTTPException 403 ''Not your car''), db)
          else (Inr ''deleted'',
                db\<lparr>cars := filter (\<lambda>c. Car_id c \<noteq> car_id) (cars db),
                   inspections := filter (\<lambda>i. Inspection_car_id i \<noteq> car_id) (inspections db)\<rparr>))"

definition list_inspections :: "int \<Rightarrow> User \<Rightarrow> Session \<Rightarrow> HTTPException + Inspection list" where
  "list_inspections car_id current_user db =
     (case db_get Car_id (cars db) car_id of
        None \<Rightarrow> Inl (HTTPException 404 ''Car not found'')
      | Some car \<Rightarrow>
          if User_role current_user \<noteq> UserRole_admin \<and> Car_user_id car \<noteq> User_id current_user
          then Inl (HTTPException 403 ''Not your car'')
          else Inr (order_by_date_desc
                      (filter (\<lambda>i. Inspection_car_id i = car_id) (inspections db))))"

definition create_inspection ::
  "int \<Rightarrow> int \<Rightarrow> InspectionCreate \<Rightarrow> User \<Rightarrow> Session \<Rightarrow> (HTTPException + Inspection) \<times> Session" where
  "create_inspection new_id car_id inspection current_user db =
     (case db_get Car_id (cars db) car_id of
        None \<Rightarrow> (Inl (HTTPException 404 ''Car not found''), db)
      | Some car \<Rightarrow>
          if User_role current_user \<noteq> UserRole_admin \<and> Car_user_id car \<noteq> User_id current_user
          then (Inl (HTTPException 403 ''Not your car''), db)
          else
            (let db_insp = \<lparr>Inspection_id = new_id,
                            Inspection_car_id = car_id,
                            Inspection_date = InspectionCreate_date inspection,
                            Inspection_frontLeft = InspectionCreate_frontLeft inspection,
                            Inspection_frontRight = InspectionCreate_frontRight inspection,
                            Inspection_rearLeft = InspectionCreate_rearLeft inspection,
                            Inspection_rearRight = InspectionCreate_rearRight inspection,
                            Inspection_notes = InspectionCreate_notes inspection\<rparr>
             in (Inr db_insp, db\<lparr>inspections := inspections db @ [db_insp]\<rparr>)))"

definition update_inspection ::
  "int \<Rightarrow> InspectionCreate \<Rightarrow> User \<Rightarrow> Session \<Rightarrow> (HTTPException + Inspection) \<times> Session" where
  "update_inspection inspection_id inspection_in current_user db =
     (case db_get Inspection_id (inspections db) inspection_id of
        None \<Rightarrow> (Inl (HTTPException 404 ''Inspection not found''), db)
      | Some insp \<Rightarrow>
          (case db_get Car_id (cars db) (Inspection_car_id insp) of
             None \<Rightarrow> (Inl (HTTPException 404 ''Car not found''), db)
           | Some car \<Rightarrow>
               if User_role current_user \<noteq> UserRole_admin
                  \<and> Car_user_id car \<noteq> User_id current_user
               then (Inl (HTTPException 403 ''Not your car''), db)
               else
                 (let insp' = insp\<lparr>Inspection_date := InspectionCreate_date inspection_in,
                                   Inspection_frontLeft := InspectionCreate_frontLeft inspection_in,
                                   Inspection_frontRight := InspectionCreate_frontRight inspection_in,
                                   Inspection_rearLeft := InspectionCreate_rearLeft inspection_in,
                                   Inspection_rearRight := InspectionCreate_rearRight inspection_in,
                                   Inspection_notes := InspectionCreate_notes inspection_in\<rparr>
                  in (Inr insp',
                      db\<lparr>inspections :=
                            map (\<lambda>i. if Inspection_id i = inspection_id then insp' else i)
                                (inspections db)\<rparr>))))"

definition delete_inspection ::
  "int \<Rightarrow> User \<Rightarrow> Session \<Rightarrow> (HTTPException + string) \<times> Session" where
  "delete_inspection inspection_id current_user db =
     (case db_get Inspection_id (inspections db) inspection_id of
        None \<Rightarrow> (Inl (HTTPException 404 ''Inspection not found''), db)
      | Some insp \<Rightarrow>
          (case db_get Car_id (cars db) (Inspection_car_id insp) of
             None \<Rightarrow> (Inl (HTTPException 404 ''Car not found''), db)
           | Some car \<Rightarrow>
               if User_role current_user \<noteq> UserRole_admin
                  \<and> Car_user_id car \<noteq> User_id current_user
               then (Inl (HTTPException 403 ''Not your car''), db)
               else (Inr ''deleted'',
                     db\<lparr>inspections :=
                           filter (\<lambda>i. Inspection_id i \<noteq> inspection_id) (inspections db)\<rparr>)))"

section \<open>The authorization rule of the specification\<close>

text \<open>
  The rule as the specification words it (section 4.4), to be compared with the
  condition the handlers write out: an admin may access any resource, any other
  identity only a resource whose owner it is.
\<close>

definition canAccess :: "User \<Rightarrow> int \<Rightarrow> bool" where
  "canAccess identity resourceOwnerId =
     (User_role identity = UserRole_admin \<or> User_id identity = resourceOwnerId)"

text \<open>A handler grants access when it returns a response and no exception.\<close>

definition granted :: "'e + 'a \<Rightarrow> bool" where
  "granted r = (case r of Inl _ \<Rightarrow> False | Inr _ \<Rightarrow> True)"

section \<open>Notions of the specification used to state the properties\<close>

text \<open>The vehicles a user owns: the rows of \<^verbatim>\<open>cars\<close> whose \<^verbatim>\<open>user_id\<close> is the user's id.\<close>

definition cars_owned :: "User \<Rightarrow> Session \<Rightarrow> Car list" where
  "cars_owned u db = filter (\<lambda>c. Car_user_id c = User_id u) (cars db)"

text \<open>The inspections of a vehicle: the rows of \<^verbatim>\<open>inspections\<close> whose \<^verbatim>\<open>car_id\<close> is
  the vehicle's id.\<close>

definition inspections_of :: "Session \<Rightarrow> Car \<Rightarrow> Inspection list" where
  "inspections_of db car = filter (\<lambda>i. Inspection_car_id i = Car_id car) (inspections db)"

text \<open>An inspection fails when one of its four tyre readings is \<^verbatim>\<open>bad\<close>.\<close>

definition has_bad :: "Inspection \<Rightarrow> bool" where
  "has_bad i =
     (Inspection_frontLeft i = TyreCondition_bad \<or> Inspection_frontRight i = TyreCondition_bad
      \<or> Inspection_rearLeft i = TyreCondition_bad \<or> Inspection_rearRight i = TyreCondition_bad)"

text \<open>A most recent inspection among some rows: one of them, with a date no other exceeds.\<close>

definition most_recent :: "Inspection list \<Rightarrow> Inspection \<Rightarrow> bool" where
  "most_recent rows i = (i \<in> set rows \<and> list_all (\<lambda>j. Inspection_date j \<le> Inspection_date i) rows)"

text \<open>A failing vehicle in the words of the specification: a most recent inspection of it
  has a bad reading.\<close>

definition failing_vehicle :: "Session \<Rightarrow> Car \<Rightarrow> bool" where
  "failing_vehicle db car =
     list_ex (\<lambda>i. most_recent (inspections_of db car) i \<and> has_bad i) (inspections_of db car)"

text \<open>
  The specification speaks of \<^emph>\<open>the\<close> most recent inspection and leaves the order of
  inspections with equal dates open. The verdict of the most recent inspection of a
  vehicle is determined when all its inspections of the greatest date agree on it; this
  is so in particular when no two inspections of the vehicle have the same date.
\<close>

definition latest_determined :: "Session \<Rightarrow> Car \<Rightarrow> bool" where
  "latest_determined db car =
     list_all (\<lambda>i. list_all (\<lambda>j. most_recent (inspections_of db car) i
                                  \<and> most_recent (inspections_of db car) j
                                  \<longrightarrow> has_bad i = has_bad j)
                            (inspections_of db car))
              (inspections_of db car)"

text \<open>
  The foreign key of \<^verbatim>\<open>Inspection.car_id\<close>: every stored inspection refers to a stored
  car.
\<close>

definition fk_ok :: "Session \<Rightarrow> bool" where
  "fk_ok db = list_all (\<lambda>i. db_get Car_id (cars db) (Inspection_car_id i) \<noteq> None) (inspections db)"

section \<open>Token service\<close>

text \<open>
  Modelled from the spec: the token service (\<^verbatim>\<open>create_access_token\<close> and the
  verification inside \<^verbatim>\<open>get_current_user\<close>, both in \<^verbatim>\<open>app/auth.py\<close>, which is not
  among the sources). Section 3 of the specification: a token is a signed claim of a
  subject (a user id) and an expiry. A token whose payload does not decode to such a
  claim is malformed. The signing function and the secret key are arguments.
\<close>

datatype token_payload = Claims (subject: int) (expiry: int) | Malformed

record Token =
  Token_payload :: token_payload
  Token_signature :: string

datatype token_failure = InvalidToken

text \<open>
  Modelled from the spec: \<^verbatim>\<open>issue(subject, ttl)\<close> of section 4.2, at the time \<open>now\<close>:
  the expiry is the time of issue plus \<open>ttl\<close>, and the token is signed with the secret.
\<close>

definition issue :: "(string \<Rightarrow> token_payload \<Rightarrow> string) \<Rightarrow> string \<Rightarrow> int \<Rightarrow> int \<Rightarrow> int \<Rightarrow> Token" where
  "issue sign secret now s ttl =
     \<lparr>Token_payload = Claims s (now + ttl),
      Token_signature = sign secret (Claims s (now + ttl))\<rparr>"

text \<open>
  Modelled from the spec: \<^verbatim>\<open>verify(token)\<close> of section 4.2, at the time \<open>now\<close>:
  it fails with \<open>InvalidToken\<close> if the signature does not match, the payload is malformed,
  or the embedded expiry is in the past; otherwise it returns the embedded subject.
\<close>

definition verify ::
  "(string \<Rightarrow> token_payload \<Rightarrow> string) \<Rightarrow> string \<Rightarrow> int \<Rightarrow> Token \<Rightarrow> token_failure + int" where
  "verify sign secret now tok =
     (if Token_signature tok \<noteq> sign secret (Token_payload tok) then Inl InvalidToken
      else case Token_payload tok of
             Malformed \<Rightarrow> Inl InvalidToken
           | Claims s e \<Rightarrow> if e < now then Inl InvalidToken else Inr s)"

section \<open>A sample state\<close>

text \<open>
  The state of the scenario of the specification (section 8): user A owns vehicle V1 with an
  earlier inspection that has a bad front-left tyre and a later inspection with four good
  tyres, and a second vehicle without inspections; B is another user and R an admin.
\<close>

definition ex_A :: User where
  "ex_A = \<lparr>User_id = 1, User_name = ''A'', User_email = ''a@x.com'', User_phone = ''100'',
           User_password_hash = ''hashA'', User_role = UserRole_user\<rparr>"

definition ex_B :: User where
  "ex_B = \<lparr>User_id = 2, User_name = ''B'', User_email = ''b@x.com'', User_phone = ''200'',
           User_password_hash = ''hashB'', User_role = UserRole_user\<rparr>"

definition ex_R :: User where
  "ex_R = \<lparr>User_id = 3, User_name = ''R'', User_email = ''r@x.com'', User_phone = ''300'',
           User_password_hash = ''hashR'', User_role = UserRole_admin\<rparr>"

definition ex_V1 :: Car where
  "ex_V1 = \<lparr>Car_id = 10, Car_user_id = 1, Car_make = ''Fiat'', Car_model = ''Panda'',
            Car_year = 2012, Car_plate = ''WA 1''\<rparr>"

definition ex_V2 :: Car where
  "ex_V2 = \<lparr>Car_id = 11, Car_user_id = 1, Car_make = ''Opel'', Car_model = ''Astra'',
            Car_year = 2015, Car_plate = ''WA 2''\<rparr>"

definition ex_I1 :: Inspection where
  "ex_I1 = \<lparr>Inspection_id = 100, Inspection_car_id = 10, Inspection_date = 5,
            Inspection_frontLeft = TyreCondition_bad, Inspection_frontRight = TyreCondition_good,
            Inspection_rearLeft = TyreCondition_good, Inspection_rearRight = TyreCondition_good,
            Inspection_notes = None\<rparr>"

definition ex_I2 :: Inspection where
  "ex_I2 = \<lparr>Inspection_id = 101, Inspection_car_id = 10, Inspection_date = 9,
            Inspection_frontLeft = TyreCondition_good, Inspection_frontRight = TyreCondition_good,
            Inspection_rearLeft = TyreCondition_good, Inspection_rearRight = TyreCondition_good,
            Inspection_notes = None\<rparr>"

definition ex_db :: Session where
  "ex_db = \<lparr>users = [ex_A, ex_B, ex_R], cars = [ex_V1, ex_V2], inspections = [ex_I1, ex_I2]\<rparr>"

definition ex_car_in :: CarCreate where
  "ex_car_in = \<lparr>CarCreate_make = ''Fiat'', CarCreate_model = ''Punto'', CarCreate_year = 2013,
                CarCreate_plate = ''WA 3''\<rparr>"

definition ex_insp_in :: InspectionCreate where
  "ex_insp_in = \<lparr>InspectionCreate_date = 12,
                 InspectionCreate_frontLeft = TyreCondition_good,
                 InspectionCreate_frontRight = TyreCondition_good,
                 InspectionCreate_rearLeft = TyreCondition_bad,
                 InspectionCreate_rearRight = TyreCondition_good,
                 InspectionCreate_notes = Some ''rear left worn''\<rparr>"

text \<open>
  Registration requests for the sample state, with stand-ins for the hash function and for
  the validator of addresses: a string without \<open>@\<close> is no address, and the part of an
  address from the \<open>@\<close> on is put in lower case.
\<close>

definition ex_hash :: "string \<Rightarrow> string" where
  "ex_hash p = CHR ''#'' # p"

definition ex_lower :: "char \<Rightarrow> char" where
  "ex_lower c =
     (case map_of (zip ''ABCDEFGHIJKLMNOPQRSTUVWXYZ'' ''abcdefghijklmnopqrstuvwxyz'') c of
        None \<Rightarrow> c
      | Some l \<Rightarrow> l)"

definition ex_validate_email :: "string \<Rightarrow> string option" where
  "ex_validate_email a =
     (if CHR ''@'' \<in> set a
      then Some (takeWhile (\<lambda>c. c \<noteq> CHR ''@'') a @ map ex_lower (dropWhile (\<lambda>c. c \<noteq> CHR ''@'') a))
      else None)"

definition ex_body_dup :: UserCreate_body where
  "ex_body_dup = \<lparr>body_name = ''A again'', body_email = ''a@X.com'', body_phone = ''101'',
                  body_role = None, body_password = ''pw''\<rparr>"

definition ex_body_new :: UserCreate_body where
  "ex_body_new = \<lparr>body_name = ''C'', body_email = ''c@x.com'', body_phone = ''400'',
                  body_role = None, body_password = ''secret''\<rparr>"

definition ex_body_admin :: UserCreate_body where
  "ex_body_admin = \<lparr>body_name = ''M'', body_email = ''m@x.com'', body_phone = ''500'',
                    body_role = Some UserRole_admin, body_password = ''pw''\<rparr>"

definition ex_body_invalid :: UserCreate_body where
  "ex_body_invalid = \<lparr>body_name = ''N'', body_email = ''not-an-email'', body_phone = ''600'',
                      body_role = Some UserRole_admin, body_password = ''pw''\<rparr>"

text \<open>
  A state with a tie: the one vehicle of A has two inspections of the same date, the first
  stored with four good tyres, the second with a bad one.
\<close>

definition ex_T1 :: Inspection where
  "ex_T1 = \<lparr>Inspection_id = 100, Inspection_car_id = 10, Inspection_date = 5,
            Inspection_frontLeft = TyreCondition_good, Inspection_frontRight = TyreCondition_good,
            Inspection_rearLeft = TyreCondition_good, Inspection_rearRight = TyreCondition_good,
            Inspection_notes = None\<rparr>"

definition ex_T2 :: Inspection where
  "ex_T2 = \<lparr>Inspection_id = 101, Inspection_car_id = 10, Inspection_date = 5,
            Inspection_frontLeft = TyreCondition_bad, Inspection_frontRight = TyreCondition_good,
            Inspection_rearLeft = TyreCondition_good, Inspection_rearRight = TyreCondition_good,
            Inspection_notes = None\<rparr>"

definition ex_tie :: Session where
  "ex_tie = \<lparr>users = [ex_A, ex_B, ex_R], cars = [ex_V1], inspections = [ex_T1, ex_T2]\<rparr>"

text \<open>
  The scenario replayed through the handlers: A creates a vehicle, adds an inspection with a
  bad front-left tyre, then a later inspection with four good tyres.
\<close>

definition ex_bad_in :: InspectionCreate where
  "ex_bad_in = \<lparr>InspectionCreate_date = 5,
                InspectionCreate_frontLeft = TyreCondition_bad,
                InspectionCreate_frontRight = TyreCondition_good,
                InspectionCreate_rearLeft = TyreCondition_good,
                InspectionCreate_rearRight = TyreCondition_good,
                InspectionCreate_notes = None\<rparr>"

definition ex_good_in :: InspectionCreate where
  "ex_good_in = \<lparr>InspectionCreate_date = 9,
                 InspectionCreate_frontLeft = TyreCondition_good,
                 InspectionCreate_frontRight = TyreCondition_good,
                 InspectionCreate_rearLeft = TyreCondition_good,
                 InspectionCreate_rearRight = TyreCondition_good,
                 InspectionCreate_notes = None\<rparr>"

definition ex_s0 :: Session where
  "ex_s0 = \<lparr>users = [ex_A, ex_B, ex_R], cars = [], inspections = []\<rparr>"

definition ex_s1 :: Session where
  "ex_s1 = snd (create_car 10 ex_car_in ex_A ex_s0)"

definition ex_s2 :: Session where
  "ex_s2 = snd (create_inspection 100 10 ex_bad_in ex_A ex_s1)"

definition ex_s3 :: Session where
  "ex_s3 = snd (create_inspection 101 10 ex_good_in ex_A ex_s2)"

text \<open>A stand-in for the signing function: the key followed by a tag of the payload.\<close>

definition ex_sign :: "string \<Rightarrow> token_payload \<Rightarrow> string" where
  "ex_sign k p = k @ (case p of Claims s e \<Rightarrow> ''c'' | Malformed \<Rightarrow> ''m'')"

lemmas ex_defs = ex_A_def ex_B_def ex_R_def ex_V1_def ex_V2_def ex_I1_def ex_I2_def ex_db_def
  ex_car_in_def ex_insp_in_def

section \<open>Facts about the queries\<close>

lemma db_get_Some_key: "db_get pk rows k = Some r \<Longrightarrow> pk r = k \<and> r \<in> set rows"
  by (auto simp: db_get_def find_Some_iff)

lemma db_get_None_iff: "db_get pk rows k = None \<longleftrightarrow> (\<forall>r\<in>set rows. pk r \<noteq> k)"
  by (auto simp: db_get_def find_None_iff)

lemma db_get_replace:
  assumes "pk r' = k"
  shows "db_get pk (map (\<lambda>r. if pk r = k then r' else r) rows) j =
         (if j = k then map_option (\<lambda>_. r') (db_get pk rows k) else db_get pk rows j)"
  using assms by (induction rows) (auto simp: db_get_def)

lemma replace_keeps_keys:
  assumes "pk r' = k"
  shows "map pk (map (\<lambda>r. if pk r = k then r' else r) rows) = map pk rows"
  using assms by (induction rows) simp_all

lemma first_None_iff: "first rows = None \<longleftrightarrow> rows = []"
  by (simp add: first_def split: list.splits)

lemma first_Some_hd: "first rows = Some r \<Longrightarrow> rows \<noteq> [] \<and> r = hd rows"
  by (auto simp: first_def split: list.splits)

lemma first_filter_None_iff: "first (filter P rows) = None \<longleftrightarrow> (\<forall>r\<in>set rows. \<not> P r)"
  by (simp add: first_None_iff filter_empty_conv)

lemma first_order_by_None_iff: "first (order_by_date_desc rows) = None \<longleftrightarrow> rows = []"
proof -
  have "length (order_by_date_desc rows) = length rows"
    by (simp add: order_by_date_desc_def)
  then have "order_by_date_desc rows = [] \<longleftrightarrow> rows = []"
    by (metis length_0_conv)
  then show ?thesis by (simp add: first_None_iff)
qed

lemma first_order_by_most_recent:
  assumes "first (order_by_date_desc rows) = Some i"
  shows "most_recent rows i"
proof -
  let ?s = "order_by_date_desc rows"
  from assms obtain rest where s: "?s = i # rest"
    by (auto simp: first_def split: list.splits)
  have srt: "sorted (map (\<lambda>j. - Inspection_date j) ?s)"
    by (simp add: order_by_date_desc_def)
  have st: "set ?s = set rows"
    by (simp add: order_by_date_desc_def)
  from s st have mem: "i \<in> set rows" by (metis list.set_intros(1))
  have "\<forall>j\<in>set rows. Inspection_date j \<le> Inspection_date i"
  proof
    fix j assume "j \<in> set rows"
    with st s have "j = i \<or> j \<in> set rest" by (metis set_ConsD)
    moreover from srt s have "\<forall>j\<in>set rest. - Inspection_date i \<le> - Inspection_date j"
      by simp
    ultimately show "Inspection_date j \<le> Inspection_date i" by auto
  qed
  with mem show ?thesis by (simp add: most_recent_def list_all_iff)
qed

lemma car_failed_iff:
  "car_failed db car \<longleftrightarrow>
     (\<exists>i. first (order_by_date_desc (inspections_of db car)) = Some i \<and> has_bad i)"
  unfolding car_failed_def inspections_of_def has_bad_def
  by (cases "first (order_by_date_desc (filter (\<lambda>i. Inspection_car_id i = Car_id car) (inspections db)))") simp_all


lemma most_recent_mem: "most_recent rows i \<Longrightarrow> i \<in> set rows"
  by (simp add: most_recent_def)

lemma latest_determinedD:
  assumes "latest_determined db car"
    and "most_recent (inspections_of db car) i" and "most_recent (inspections_of db car) j"
  shows "has_bad i = has_bad j"
proof -
  from assms(2,3) have "i \<in> set (inspections_of db car)" "j \<in> set (inspections_of db car)"
    by (simp_all add: most_recent_mem)
  with assms show ?thesis
    unfolding latest_determined_def list_all_iff by blast
qed

lemma failing_vehicle_iff:
  "failing_vehicle db car \<longleftrightarrow> (\<exists>i. most_recent (inspections_of db car) i \<and> has_bad i)"
  unfolding failing_vehicle_def list_ex_iff using most_recent_mem by blast

lemma car_failed_failing_vehicle:
  assumes "latest_determined db car"
  shows "car_failed db car \<longleftrightarrow> failing_vehicle db car"
proof
  assume "car_failed db car"
  then obtain i where i: "first (order_by_date_desc (inspections_of db car)) = Some i" "has_bad i"
    unfolding car_failed_iff by blast
  from first_order_by_most_recent[OF i(1)] i(2)
  show "failing_vehicle db car"
    unfolding failing_vehicle_iff by blast
next
  assume "failing_vehicle db car"
  then obtain j where j: "most_recent (inspections_of db car) j" "has_bad j"
    unfolding failing_vehicle_iff by blast
  from j(1) have "inspections_of db car \<noteq> []"
    using most_recent_mem by fastforce
  then have "first (order_by_date_desc (inspections_of db car)) \<noteq> None"
    by (simp add: first_order_by_None_iff)
  then obtain i where i: "first (order_by_date_desc (inspections_of db car)) = Some i"
    by blast
  have mi: "most_recent (inspections_of db car) i" by (rule first_order_by_most_recent[OF i])
  from latest_determinedD[OF assms mi j(1)] j(2) have "has_bad i" by simp
  with i show "car_failed db car" unfolding car_failed_iff by blast
qed


lemma count_failed_eq:
  "count_failed db cs n = n + int (length (filter (car_failed db) cs))"
  by (induction cs arbitrary: n) simp_all

lemma me_failed_cars:
  "MeResponse_failed_cars (me u db) = int (length (filter (car_failed db) (cars_owned u db)))"
  by (simp add: me_def Let_def count_failed_eq cars_owned_def)

lemma most_recent_unique_later:
  assumes mem: "i \<in> set rows"
    and later: "\<forall>j\<in>set rows. j \<noteq> i \<longrightarrow> Inspection_date j < Inspection_date i"
    and mr: "most_recent rows j"
  shows "j = i"
proof (rule ccontr)
  assume ne: "j \<noteq> i"
  from mr have jm: "j \<in> set rows" by (rule most_recent_mem)
  with later ne have "Inspection_date j < Inspection_date i" by blast
  moreover from mr mem have "Inspection_date i \<le> Inspection_date j"
    unfolding most_recent_def list_all_iff by blast
  ultimately show False by simp
qed

lemma superseded_not_failed:
  assumes mem: "i \<in> set (inspections_of db car)" and good: "\<not> has_bad i"
    and later: "\<forall>j\<in>set (inspections_of db car). j \<noteq> i \<longrightarrow> Inspection_date j < Inspection_date i"
  shows "\<not> car_failed db car \<and> \<not> failing_vehicle db car"
proof -
  have a: "\<not> failing_vehicle db car"
    unfolding failing_vehicle_iff
    using most_recent_unique_later[OF mem later] good by blast
  have b: "\<not> car_failed db car"
  proof
    assume "car_failed db car"
    then obtain j where j: "first (order_by_date_desc (inspections_of db car)) = Some j" "has_bad j"
      unfolding car_failed_iff by blast
    from most_recent_unique_later[OF mem later first_order_by_most_recent[OF j(1)]] j(2) good
    show False by simp
  qed
  from a b show ?thesis by simp
qed

lemma no_inspections_not_failed:
  assumes "inspections_of db car = []"
  shows "\<not> car_failed db car \<and> \<not> failing_vehicle db car"
proof -
  have "first (order_by_date_desc (inspections_of db car)) = None"
    using assms by (simp add: first_order_by_None_iff)
  then have "\<not> car_failed db car" unfolding car_failed_iff by simp
  moreover have "\<not> failing_vehicle db car"
    using assms by (simp add: failing_vehicle_def)
  ultimately show ?thesis by simp
qed

section \<open>Authorization on every vehicle and inspection operation\<close>

text \<open>
  Claim C1. For every identity and every state: whenever a car with the given key is stored,
  reading it, updating it, deleting it, listing its inspections and adding an inspection to
  it are granted if and only if the identity is an admin or its id is the id of the owning
  user; whenever an inspection with the given key is stored together with its parent car,
  updating and deleting it are granted if and only if the identity is an admin or its id is
  the id of the user owning the parent car. These are all the handlers that take the key of
  a stored resource, so none of them skips the check. The two remaining handlers of vehicles
  take no key: the listing returns only vehicles the rule grants to the caller, and a created
  vehicle is owned by its creator.
\<close>

theorem ownership_or_admin_guard:
  "(db_get Car_id (cars db) car_id = Some car \<longrightarrow>
      (granted (get_car car_id u db) \<longleftrightarrow> canAccess u (Car_user_id car))
    \<and> (granted (fst (update_car car_id car_in u db)) \<longleftrightarrow> canAccess u (Car_user_id car))
    \<and> (granted (fst (delete_car car_id u db)) \<longleftrightarrow> canAccess u (Car_user_id car))
    \<and> (granted (list_inspections car_id u db) \<longleftrightarrow> canAccess u (Car_user_id car))
    \<and> (granted (fst (create_inspection new_id car_id insp_in u db))
         \<longleftrightarrow> canAccess u (Car_user_id car)))
   \<and> (db_get Inspection_id (inspections db) inspection_id = Some insp
      \<and> db_get Car_id (cars db) (Inspection_car_id insp) = Some pcar \<longrightarrow>
      (granted (fst (update_inspection inspection_id insp_in u db))
         \<longleftrightarrow> canAccess u (Car_user_id pcar))
    \<and> (granted (fst (delete_inspection inspection_id u db))
         \<longleftrightarrow> canAccess u (Car_user_id pcar)))
   \<and> list_all (\<lambda>c. canAccess u (Car_user_id c)) (list_cars u db)
   \<and> canAccess u (Car_user_id (fst (create_car new_id car_in u db)))"
proof -
  have keyed_car:
    "(granted (get_car car_id u db) \<longleftrightarrow> canAccess u (Car_user_id car))
    \<and> (granted (fst (update_car car_id car_in u db)) \<longleftrightarrow> canAccess u (Car_user_id car))
    \<and> (granted (fst (delete_car car_id u db)) \<longleftrightarrow> canAccess u (Car_user_id car))
    \<and> (granted (list_inspections car_id u db) \<longleftrightarrow> canAccess u (Car_user_id car))
    \<and> (granted (fst (create_inspection new_id car_id insp_in u db))
         \<longleftrightarrow> canAccess u (Car_user_id car))"
    if "db_get Car_id (cars db) car_id = Some car"
    using that
    by (auto simp: granted_def canAccess_def get_car_def update_car_def delete_car_def
        list_inspections_def create_inspection_def Let_def)
  have keyed_insp:
    "(granted (fst (update_inspection inspection_id insp_in u db))
         \<longleftrightarrow> canAccess u (Car_user_id pcar))
    \<and> (granted (fst (delete_inspection inspection_id u db))
         \<longleftrightarrow> canAccess u (Car_user_id pcar))"
    if "db_get Inspection_id (inspections db) inspection_id = Some insp"
      and "db_get Car_id (cars db) (Inspection_car_id insp) = Some pcar"
    using that
    by (auto simp: granted_def canAccess_def update_inspection_def delete_inspection_def Let_def)
  have listed: "list_all (\<lambda>c. canAccess u (Car_user_id c)) (list_cars u db)"
    by (auto simp: list_all_iff list_cars_def canAccess_def)
  have created: "canAccess u (Car_user_id (fst (create_car new_id car_in u db)))"
    by (simp add: create_car_def canAccess_def Let_def)
  from keyed_car keyed_insp listed created show ?thesis by blast
qed

text \<open>
  The witness: in the sample state B is refused on the car and the inspection of A, the admin
  and A are granted; and in the state of the scenario after the car is created, where no
  inspection is stored, the owner and the admin read the car and B does not.
\<close>

theorem ownership_or_admin_guard_witness:
  "db_get Car_id (cars ex_db) 10 = Some ex_V1
   \<and> db_get Inspection_id (inspections ex_db) 101 = Some ex_I2
   \<and> db_get Car_id (cars ex_db) (Inspection_car_id ex_I2) = Some ex_V1
   \<and> \<not> canAccess ex_B (Car_user_id ex_V1)
   \<and> \<not> granted (get_car 10 ex_B ex_db)
   \<and> \<not> granted (fst (update_car 10 ex_car_in ex_B ex_db))
   \<and> \<not> granted (fst (delete_car 10 ex_B ex_db))
   \<and> \<not> granted (list_inspections 10 ex_B ex_db)
   \<and> \<not> granted (fst (create_inspection 102 10 ex_insp_in ex_B ex_db))
   \<and> \<not> granted (fst (update_inspection 101 ex_insp_in ex_B ex_db))
   \<and> \<not> granted (fst (delete_inspection 101 ex_B ex_db))
   \<and> canAccess ex_R (Car_user_id ex_V1)
   \<and> granted (get_car 10 ex_R ex_db)
   \<and> granted (fst (delete_inspection 101 ex_R ex_db))
   \<and> canAccess ex_A (Car_user_id ex_V1)
   \<and> granted (fst (update_car 10 ex_car_in ex_A ex_db))
   \<and> granted (fst (update_inspection 101 ex_insp_in ex_A ex_db))
   \<and> inspections ex_s1 = []
   \<and> db_get Car_id (cars ex_s1) 10 = Some (fst (create_car 10 ex_car_in ex_A ex_s0))
   \<and> granted (get_car 10 ex_A ex_s1)
   \<and> granted (get_car 10 ex_R ex_s1)
   \<and> \<not> granted (get_car 10 ex_B ex_s1)"
proof -
  have h1: "db_get Car_id (cars ex_db) 10 = Some ex_V1"
    by (simp add: db_get_def ex_defs)
  have h2: "db_get Inspection_id (inspections ex_db) 101 = Some ex_I2"
    by (simp add: db_get_def ex_defs)
  have h3: "db_get Car_id (cars ex_db) (Inspection_car_id ex_I2) = Some ex_V1"
    by (simp add: db_get_def ex_defs)
  have b: "\<not> canAccess ex_B (Car_user_id ex_V1)"
    by (simp add: canAccess_def ex_defs)
  have r: "canAccess ex_R (Car_user_id ex_V1)"
    by (simp add: canAccess_def ex_defs)
  have a: "canAccess ex_A (Car_user_id ex_V1)"
    by (simp add: canAccess_def ex_defs)
  have s1: "inspections ex_s1 = []"
    by (simp add: ex_s1_def ex_s0_def create_car_def Let_def)
  have s2: "db_get Car_id (cars ex_s1) 10 = Some (fst (create_car 10 ex_car_in ex_A ex_s0))"
    by (simp add: ex_s1_def ex_s0_def create_car_def Let_def db_get_def)
  have oa: "canAccess ex_A (Car_user_id (fst (create_car 10 ex_car_in ex_A ex_s0)))"
    and orr: "canAccess ex_R (Car_user_id (fst (create_car 10 ex_car_in ex_A ex_s0)))"
    and ob: "\<not> canAccess ex_B (Car_user_id (fst (create_car 10 ex_car_in ex_A ex_s0)))"
    by (simp_all add: create_car_def Let_def canAccess_def ex_defs)
  note g = ownership_or_admin_guard
    [where db = ex_db and car_id = 10 and car = ex_V1 and inspection_id = 101
       and insp = ex_I2 and pcar = ex_V1
       and car_in = ex_car_in and insp_in = ex_insp_in and new_id = 102]
  note k = ownership_or_admin_guard
    [where db = ex_s1 and car_id = 10 and car = "fst (create_car 10 ex_car_in ex_A ex_s0)"]
  show ?thesis
    using h1 h2 h3 a b r s1 s2 oa orr ob
      g [where u = ex_B] g [where u = ex_R] g [where u = ex_A]
      k [where u = ex_B] k [where u = ex_R] k [where u = ex_A]
    by simp
qed

section \<open>Not found before forbidden\<close>

text \<open>
  Claim C2. In every state and for every caller, each operation that takes the key of a car
  fails with status 404 when no car has that key, and each operation that takes the key of an
  inspection fails with status 404 when no inspection has that key: the caller's role and
  ownership play no part. When the car exists and the authorization rule denies the caller,
  the operation on it fails with status 403; when the inspection and its parent car exist and
  the rule denies the caller on the parent car, the operation on the inspection fails with
  status 403. The lookup comes first, the two failures carry different status codes, and a
  failed operation leaves the state as it was.
\<close>

theorem not_found_before_forbidden:
  "(db_get Car_id (cars db) car_id = None \<longrightarrow>
      get_car car_id u db = Inl (HTTPException 404 ''Car not found'')
    \<and> update_car car_id car_in u db = (Inl (HTTPException 404 ''Car not found''), db)
    \<and> delete_car car_id u db = (Inl (HTTPException 404 ''Car not found''), db)
    \<and> list_inspections car_id u db = Inl (HTTPException 404 ''Car not found'')
    \<and> create_inspection new_id car_id insp_in u db
        = (Inl (HTTPException 404 ''Car not found''), db))
   \<and> (db_get Inspection_id (inspections db) inspection_id = None \<longrightarrow>
      update_inspection inspection_id insp_in u db
        = (Inl (HTTPException 404 ''Inspection not found''), db)
    \<and> delete_inspection inspection_id u db
        = (Inl (HTTPException 404 ''Inspection not found''), db))
   \<and> (db_get Car_id (cars db) car_id = Some car \<and> \<not> canAccess u (Car_user_id car) \<longrightarrow>
      get_car car_id u db = Inl (HTTPException 403 ''Not your car'')
    \<and> update_car car_id car_in u db = (Inl (HTTPException 403 ''Not your car''), db)
    \<and> delete_car car_id u db = (Inl (HTTPException 403 ''Not your car''), db)
    \<and> list_inspections car_id u db = Inl (HTTPException 403 ''Not your car'')
    \<and> create_inspection new_id car_id insp_in u db
        = (Inl (HTTPException 403 ''Not your car''), db))
   \<and> (db_get Inspection_id (inspections db) inspection_id = Some insp
      \<and> db_get Car_id (cars db) (Inspection_car_id insp) = Some pcar
      \<and> \<not> canAccess u (Car_user_id pcar) \<longrightarrow>
      update_inspection inspection_id insp_in u db
        = (Inl (HTTPException 403 ''Not your car''), db)
    \<and> delete_inspection inspection_id u db = (Inl (HTTPException 403 ''Not your car''), db))"
proof -
  have absent_car:
    "get_car car_id u db = Inl (HTTPException 404 ''Car not found'')
    \<and> update_car car_id car_in u db = (Inl (HTTPException 404 ''Car not found''), db)
    \<and> delete_car car_id u db = (Inl (HTTPException 404 ''Car not found''), db)
    \<and> list_inspections car_id u db = Inl (HTTPException 404 ''Car not found'')
    \<and> create_inspection new_id car_id insp_in u db
        = (Inl (HTTPException 404 ''Car not found''), db)"
    if "db_get Car_id (cars db) car_id = None"
    using that
    by (simp add: get_car_def update_car_def delete_car_def list_inspections_def
        create_inspection_def)
  have absent_insp:
    "update_inspection inspection_id insp_in u db
        = (Inl (HTTPException 404 ''Inspection not found''), db)
    \<and> delete_inspection inspection_id u db
        = (Inl (HTTPException 404 ''Inspection not found''), db)"
    if "db_get Inspection_id (inspections db) inspection_id = None"
    using that by (simp add: update_inspection_def delete_inspection_def)
  have denied_car:
    "get_car car_id u db = Inl (HTTPException 403 ''Not your car'')
    \<and> update_car car_id car_in u db = (Inl (HTTPException 403 ''Not your car''), db)
    \<and> delete_car car_id u db = (Inl (HTTPException 403 ''Not your car''), db)
    \<and> list_inspections car_id u db = Inl (HTTPException 403 ''Not your car'')
    \<and> create_inspection new_id car_id insp_in u db
        = (Inl (HTTPException 403 ''Not your car''), db)"
    if "db_get Car_id (cars db) car_id = Some car" and "\<not> canAccess u (Car_user_id car)"
  proof -
    from that(2) have "User_role u \<noteq> UserRole_admin \<and> Car_user_id car \<noteq> User_id u"
      by (auto simp: canAccess_def)
    with that(1) show ?thesis
      by (simp add: get_car_def update_car_def delete_car_def list_inspections_def
          create_inspection_def)
  qed
  have denied_insp:
    "update_inspection inspection_id insp_in u db
        = (Inl (HTTPException 403 ''Not your car''), db)
    \<and> delete_inspection inspection_id u db = (Inl (HTTPException 403 ''Not your car''), db)"
    if "db_get Inspection_id (inspections db) inspection_id = Some insp"
      and "db_get Car_id (cars db) (Inspection_car_id insp) = Some pcar"
      and "\<not> canAccess u (Car_user_id pcar)"
  proof -
    from that(3) have "User_role u \<noteq> UserRole_admin \<and> Car_user_id pcar \<noteq> User_id u"
      by (auto simp: canAccess_def)
    with that(1,2) show ?thesis
      by (simp add: update_inspection_def delete_inspection_def)
  qed
  from absent_car absent_insp denied_car denied_insp show ?thesis by blast
qed

text \<open>
  The witness: an absent car and an absent inspection give 404 to the admin in the sample
  state; B gets 403 on the car and on the inspection of A; and in the state without cars and
  inspections the admin gets 404 on deleting a car, while in the state with one car and no
  inspection B gets 403 on that car.
\<close>

theorem not_found_before_forbidden_witness:
  "db_get Car_id (cars ex_db) 77 = None
   \<and> db_get Inspection_id (inspections ex_db) 88 = None
   \<and> db_get Car_id (cars ex_db) 10 = Some ex_V1
   \<and> \<not> canAccess ex_B (Car_user_id ex_V1)
   \<and> db_get Inspection_id (inspections ex_db) 100 = Some ex_I1
   \<and> db_get Car_id (cars ex_db) (Inspection_car_id ex_I1) = Some ex_V1
   \<and> get_car 77 ex_R ex_db = Inl (HTTPException 404 ''Car not found'')
   \<and> delete_car 77 ex_R ex_db = (Inl (HTTPException 404 ''Car not found''), ex_db)
   \<and> update_inspection 88 ex_insp_in ex_R ex_db
       = (Inl (HTTPException 404 ''Inspection not found''), ex_db)
   \<and> get_car 10 ex_B ex_db = Inl (HTTPException 403 ''Not your car'')
   \<and> update_car 10 ex_car_in ex_B ex_db = (Inl (HTTPException 403 ''Not your car''), ex_db)
   \<and> delete_inspection 100 ex_B ex_db = (Inl (HTTPException 403 ''Not your car''), ex_db)
   \<and> db_get Car_id (cars ex_s0) 10 = None
   \<and> delete_car 10 ex_R ex_s0 = (Inl (HTTPException 404 ''Car not found''), ex_s0)
   \<and> inspections ex_s1 = []
   \<and> db_get Car_id (cars ex_s1) 10 = Some (fst (create_car 10 ex_car_in ex_A ex_s0))
   \<and> get_car 10 ex_B ex_s1 = Inl (HTTPException 403 ''Not your car'')"
proof -
  have h1: "db_get Car_id (cars ex_db) 77 = None"
    by (simp add: db_get_def ex_defs)
  have h2: "db_get Car_id (cars ex_db) 10 = Some ex_V1"
    by (simp add: db_get_def ex_defs)
  have h3: "\<not> canAccess ex_B (Car_user_id ex_V1)"
    by (simp add: canAccess_def ex_defs)
  have h4: "db_get Inspection_id (inspections ex_db) 88 = None"
    by (simp add: db_get_def ex_defs)
  have h5: "db_get Inspection_id (inspections ex_db) 100 = Some ex_I1"
    by (simp add: db_get_def ex_defs)
  have h6: "db_get Car_id (cars ex_db) (Inspection_car_id ex_I1) = Some ex_V1"
    by (simp add: db_get_def ex_defs)
  have s0: "db_get Car_id (cars ex_s0) 10 = None"
    by (simp add: db_get_def ex_s0_def)
  have s1: "inspections ex_s1 = []"
    by (simp add: ex_s1_def ex_s0_def create_car_def Let_def)
  have s2: "db_get Car_id (cars ex_s1) 10 = Some (fst (create_car 10 ex_car_in ex_A ex_s0))"
    by (simp add: ex_s1_def ex_s0_def create_car_def Let_def db_get_def)
  have s3: "\<not> canAccess ex_B (Car_user_id (fst (create_car 10 ex_car_in ex_A ex_s0)))"
    by (simp add: create_car_def Let_def canAccess_def ex_defs)
  note n = not_found_before_forbidden
    [where car_in = ex_car_in and insp_in = ex_insp_in and new_id = 102]
  show ?thesis
    using h1 h2 h3 h4 h5 h6 s0 s1 s2 s3
      n [where db = ex_db and u = ex_R and car_id = 77 and inspection_id = 88]
      n [where db = ex_db and u = ex_B and car_id = 10 and car = ex_V1
           and inspection_id = 100 and insp = ex_I1 and pcar = ex_V1]
      n [where db = ex_s0 and u = ex_R and car_id = 10]
      n [where db = ex_s1 and u = ex_B and car_id = 10
           and car = "fst (create_car 10 ex_car_in ex_A ex_s0)"]
    by simp
qed

section \<open>The self profile: vehicles currently failing\<close>

text \<open>
  Claim C3, as stated: for every user, \<^verbatim>\<open>failed_cars\<close> of the self profile is the number
  of vehicles the user owns whose most recent inspection (greatest date) has one of the four
  tyre readings \<^verbatim>\<open>bad\<close>. The query orders by date only, so this fails where two
  inspections of a vehicle share the greatest date and disagree: in the state with a tie the
  vehicle of A has a most recent inspection with a bad reading, and \<^verbatim>\<open>failed_cars\<close> is 0,
  because the inspection the query returns first is the one without bad readings.
\<close>

theorem failed_cars_tie_counterexample:
  "cars_owned ex_A ex_tie = [ex_V1]
   \<and> inspections_of ex_tie ex_V1 = [ex_T1, ex_T2]
   \<and> Inspection_date ex_T1 = Inspection_date ex_T2
   \<and> most_recent (inspections_of ex_tie ex_V1) ex_T2
   \<and> has_bad ex_T2
   \<and> int (length (filter (failing_vehicle ex_tie) (cars_owned ex_A ex_tie))) = 1
   \<and> MeResponse_failed_cars (me ex_A ex_tie) = 0
   \<and> MeResponse_failed_cars (me ex_A ex_tie)
       \<noteq> int (length (filter (failing_vehicle ex_tie) (cars_owned ex_A ex_tie)))"
proof -
  have own: "cars_owned ex_A ex_tie = [ex_V1]"
    by (simp add: cars_owned_def ex_tie_def ex_defs)
  have ins: "inspections_of ex_tie ex_V1 = [ex_T1, ex_T2]"
    by (simp add: inspections_of_def ex_tie_def ex_T1_def ex_T2_def ex_defs)
  have d: "Inspection_date ex_T1 = Inspection_date ex_T2"
    by (simp add: ex_T1_def ex_T2_def)
  have mr: "most_recent (inspections_of ex_tie ex_V1) ex_T2"
    by (simp add: ins most_recent_def d)
  have bad: "has_bad ex_T2"
    by (simp add: has_bad_def ex_T2_def)
  have fv: "failing_vehicle ex_tie ex_V1"
    using mr bad by (simp add: failing_vehicle_def ins)
  have n: "int (length (filter (failing_vehicle ex_tie) (cars_owned ex_A ex_tie))) = 1"
    using fv by (simp add: own)
  have z: "MeResponse_failed_cars (me ex_A ex_tie) = 0"
    by (simp add: me_def car_failed_def first_def order_by_date_desc_def ex_tie_def
        ex_T1_def ex_T2_def ex_defs)
  from own ins d mr bad n z show ?thesis by simp
qed

text \<open>
  Claim C3, amended. For every user, \<^verbatim>\<open>failed_cars\<close> of the self profile is the number
  of vehicles the user owns whose most recent inspection (greatest date) has one of the four
  tyre readings \<^verbatim>\<open>bad\<close>, provided that for each owned vehicle the inspections of the
  greatest date agree on whether a reading is bad (as they do when no two inspections of a
  vehicle have the same date). In every state, a vehicle with no inspections is not failing
  and adds nothing to the count; and a vehicle with an inspection without bad readings that
  is later than all its other inspections is not failing and adds nothing to the count,
  whatever the earlier inspections say.
\<close>

theorem failed_cars_latest_inspection:
  "(list_all (latest_determined db) (cars_owned u db) \<longrightarrow>
      MeResponse_failed_cars (me u db)
        = int (length (filter (failing_vehicle db) (cars_owned u db))))
   \<and> (inspections_of db idle_car = [] \<longrightarrow>
        \<not> failing_vehicle db idle_car
        \<and> count_failed db (idle_car # rest) n = count_failed db rest n)
   \<and> (i \<in> set (inspections_of db good_car) \<and> \<not> has_bad i
      \<and> list_all (\<lambda>j. j \<noteq> i \<longrightarrow> Inspection_date j < Inspection_date i)
                  (inspections_of db good_car) \<longrightarrow>
        \<not> failing_vehicle db good_car
        \<and> count_failed db (good_car # rest) n = count_failed db rest n)"
proof -
  have a: "MeResponse_failed_cars (me u db)
             = int (length (filter (failing_vehicle db) (cars_owned u db)))"
    if det: "list_all (latest_determined db) (cars_owned u db)"
  proof -
    have "\<forall>c\<in>set (cars_owned u db). car_failed db c = failing_vehicle db c"
      using det car_failed_failing_vehicle unfolding list_all_iff by blast
    then have "filter (car_failed db) (cars_owned u db)
                 = filter (failing_vehicle db) (cars_owned u db)"
      by (simp cong: filter_cong)
    then show ?thesis by (simp only: me_failed_cars)
  qed
  have b: "\<not> failing_vehicle db idle_car
           \<and> count_failed db (idle_car # rest) n = count_failed db rest n"
    if none: "inspections_of db idle_car = []"
    using no_inspections_not_failed [OF none] by simp
  have c: "\<not> failing_vehicle db good_car
           \<and> count_failed db (good_car # rest) n = count_failed db rest n"
    if mem: "i \<in> set (inspections_of db good_car)" and good: "\<not> has_bad i"
      and later: "list_all (\<lambda>j. j \<noteq> i \<longrightarrow> Inspection_date j < Inspection_date i)
                           (inspections_of db good_car)"
  proof -
    from later
    have "\<forall>j\<in>set (inspections_of db good_car). j \<noteq> i \<longrightarrow> Inspection_date j < Inspection_date i"
      unfolding list_all_iff .
    from superseded_not_failed [OF mem good this] show ?thesis by simp
  qed
  from a b c show ?thesis by blast
qed

text \<open>
  The witness: in the sample state the later inspection of V1 has four good tyres, V2 has no
  inspections, and \<^verbatim>\<open>failed_cars\<close> of A is 0; in the state of the scenario with the one
  inspection that has a bad tyre, the verdict is determined and \<^verbatim>\<open>failed_cars\<close> of A is
  the count 1.
\<close>

theorem failed_cars_latest_inspection_witness:
  "list_all (latest_determined ex_db) (cars_owned ex_A ex_db)
   \<and> inspections_of ex_db ex_V2 = []
   \<and> ex_I2 \<in> set (inspections_of ex_db ex_V1) \<and> \<not> has_bad ex_I2
   \<and> inspections_of ex_db ex_V1 = [ex_I1, ex_I2]
   \<and> Inspection_date ex_I1 < Inspection_date ex_I2
   \<and> has_bad ex_I1
   \<and> cars_owned ex_A ex_db = [ex_V1, ex_V2]
   \<and> MeResponse_failed_cars (me ex_A ex_db) = 0
   \<and> \<not> failing_vehicle ex_db ex_V2
   \<and> \<not> failing_vehicle ex_db ex_V1
   \<and> list_all (latest_determined ex_s2) (cars_owned ex_A ex_s2)
   \<and> int (length (filter (failing_vehicle ex_s2) (cars_owned ex_A ex_s2))) = 1
   \<and> MeResponse_failed_cars (me ex_A ex_s2) = 1"
proof -
  have i1: "inspections_of ex_db ex_V1 = [ex_I1, ex_I2]"
    by (simp add: inspections_of_def ex_defs)
  have i2: "inspections_of ex_db ex_V2 = []"
    by (simp add: inspections_of_def ex_defs)
  have own: "cars_owned ex_A ex_db = [ex_V1, ex_V2]"
    by (simp add: cars_owned_def ex_defs)
  have d12: "Inspection_date ex_I1 < Inspection_date ex_I2"
    by (simp add: ex_defs)
  have mr1: "\<not> most_recent [ex_I1, ex_I2] ex_I1"
    using d12 by (simp add: most_recent_def)
  have det: "list_all (latest_determined ex_db) (cars_owned ex_A ex_db)"
    using mr1 by (simp add: own latest_determined_def i1 i2)
  have mem: "ex_I2 \<in> set (inspections_of ex_db ex_V1)"
    by (simp add: i1)
  have good: "\<not> has_bad ex_I2"
    by (simp add: has_bad_def ex_defs)
  have bad: "has_bad ex_I1"
    by (simp add: has_bad_def ex_defs)
  have later: "list_all (\<lambda>j. j \<noteq> ex_I2 \<longrightarrow> Inspection_date j < Inspection_date ex_I2)
                        (inspections_of ex_db ex_V1)"
    using d12 by (simp add: i1)
  note t = failed_cars_latest_inspection
    [where db = ex_db and u = ex_A and idle_car = ex_V2 and good_car = ex_V1 and i = ex_I2
       and rest = "[]" and n = 0]
  from t det i2 mem good later
  have f: "MeResponse_failed_cars (me ex_A ex_db)
             = int (length (filter (failing_vehicle ex_db) (cars_owned ex_A ex_db)))"
    and n2: "\<not> failing_vehicle ex_db ex_V2" and n1: "\<not> failing_vehicle ex_db ex_V1"
    by simp_all
  from f n1 n2 have z: "MeResponse_failed_cars (me ex_A ex_db) = 0"
    by (simp add: own)
  define V where "V = fst (create_car 10 ex_car_in ex_A ex_s0)"
  define B where "B = \<lparr>Inspection_id = 100, Inspection_car_id = 10, Inspection_date = 5,
      Inspection_frontLeft = TyreCondition_bad, Inspection_frontRight = TyreCondition_good,
      Inspection_rearLeft = TyreCondition_good, Inspection_rearRight = TyreCondition_good,
      Inspection_notes = None\<rparr>"
  have carid: "Car_id V = 10" and owner: "Car_user_id V = 1"
    by (simp_all add: V_def create_car_def Let_def ex_defs)
  have c1: "cars ex_s1 = [V]" and u1: "users ex_s1 = users ex_s0" and n1': "inspections ex_s1 = []"
    by (simp_all add: ex_s1_def V_def ex_s0_def create_car_def Let_def)
  have look: "db_get Car_id (cars ex_s1) 10 = Some V"
    by (simp add: c1 db_get_def carid)
  have acc: "\<not> (User_role ex_A \<noteq> UserRole_admin \<and> Car_user_id V \<noteq> User_id ex_A)"
    by (simp add: owner ex_defs)
  have s2: "cars ex_s2 = [V]" and ins2: "inspections ex_s2 = [B]"
    using look acc
    by (simp_all add: ex_s2_def B_def create_inspection_def Let_def c1 n1' ex_bad_in_def)
  have Bc: "Inspection_car_id B = 10" and Bb: "has_bad B"
    by (simp_all add: B_def has_bad_def)
  have own2: "cars_owned ex_A ex_s2 = [V]"
    by (simp add: cars_owned_def s2 owner ex_defs)
  have io2: "inspections_of ex_s2 V = [B]"
    by (simp add: inspections_of_def ins2 Bc carid)
  have det2: "list_all (latest_determined ex_s2) (cars_owned ex_A ex_s2)"
    by (simp add: own2 latest_determined_def io2)
  have fv2: "failing_vehicle ex_s2 V"
    using Bb by (simp add: failing_vehicle_def io2 most_recent_def)
  have cnt2: "int (length (filter (failing_vehicle ex_s2) (cars_owned ex_A ex_s2))) = 1"
    using fv2 by (simp add: own2)
  from failed_cars_latest_inspection [where db = ex_s2 and u = ex_A] det2 cnt2
  have one: "MeResponse_failed_cars (me ex_A ex_s2) = 1"
    by simp
  show ?thesis
    using det i2 mem good i1 d12 bad own z n1 n2 det2 cnt2 one by simp
qed

section \<open>Listing vehicles\<close>

text \<open>
  Claim C4. The vehicle listing is the list of all vehicles filtered by the authorization
  rule applied to each vehicle's owner with the caller as identity. For an admin \<open>a\<close>
  this is every vehicle, for any other caller \<open>v\<close> exactly the vehicles \<open>v\<close> owns.
\<close>

theorem list_cars_scoped_query:
  assumes "User_role a = UserRole_admin" and "User_role v \<noteq> UserRole_admin"
  shows "list_cars u db = filter (\<lambda>c. canAccess u (Car_user_id c)) (cars db)
       \<and> set (list_cars u db) = {c \<in> set (cars db). canAccess u (Car_user_id c)}
       \<and> list_cars a db = cars db
       \<and> list_cars v db = cars_owned v db
       \<and> set (list_cars v db) = {c \<in> set (cars db). Car_user_id c = User_id v}"
proof -
  have eq: "list_cars w db = filter (\<lambda>c. canAccess w (Car_user_id c)) (cars db)" for w
  proof (cases "User_role w = UserRole_admin")
    case True
    then show ?thesis by (simp add: list_cars_def canAccess_def)
  next
    case False
    have "filter (\<lambda>c. Car_user_id c = User_id w) (cars db)
            = filter (\<lambda>c. User_id w = Car_user_id c) (cars db)"
      by (rule filter_cong) auto
    with False show ?thesis by (simp add: list_cars_def canAccess_def)
  qed
  have s: "set (list_cars u db) = {c \<in> set (cars db). canAccess u (Car_user_id c)}"
    unfolding eq by simp
  have adm: "list_cars a db = cars db"
    using assms(1) by (simp add: list_cars_def)
  have usr: "list_cars v db = cars_owned v db"
    using assms(2) by (simp add: list_cars_def cars_owned_def)
  have usr_set: "set (list_cars v db) = {c \<in> set (cars db). Car_user_id c = User_id v}"
    unfolding usr cars_owned_def by simp
  show ?thesis
    by (intro conjI) (rule eq, rule s, rule adm, rule usr, rule usr_set)
qed

theorem list_cars_scoped_query_witness:
  "User_role ex_R = UserRole_admin \<and> User_role ex_B \<noteq> UserRole_admin
   \<and> list_cars ex_A ex_db = filter (\<lambda>c. canAccess ex_A (Car_user_id c)) (cars ex_db)
   \<and> list_cars ex_A ex_db = [ex_V1, ex_V2]
   \<and> list_cars ex_R ex_db = [ex_V1, ex_V2]
   \<and> list_cars ex_B ex_db = cars_owned ex_B ex_db
   \<and> list_cars ex_B ex_db = []"
proof -
  have h1: "User_role ex_R = UserRole_admin" by (simp add: ex_defs)
  have h2: "User_role ex_B \<noteq> UserRole_admin" by (simp add: ex_defs)
  have a: "list_cars ex_A ex_db = [ex_V1, ex_V2]" by (simp add: list_cars_def ex_defs)
  have c: "cars ex_db = [ex_V1, ex_V2]" by (simp add: ex_defs)
  have b: "cars_owned ex_B ex_db = []" by (simp add: cars_owned_def ex_defs)
  show ?thesis
    using h1 h2 a b c list_cars_scoped_query [OF h1 h2, of ex_A ex_db] by simp
qed

section \<open>The self profile: total of inspections\<close>

text \<open>
  Claim C5. For every user, \<^verbatim>\<open>inspections_total\<close> of the self profile is the number of
  inspections whose parent vehicle (a stored car with the inspection's \<^verbatim>\<open>car_id\<close>) is
  owned by the user, and it is 0 for a user \<open>v\<close> who owns no vehicle.
\<close>

theorem inspections_total_of_owned_cars:
  assumes "cars_owned v db = []"
  shows "MeResponse_inspections_total (me u db)
           = int (length (filter
                (\<lambda>i. list_ex (\<lambda>c. Car_id c = Inspection_car_id i \<and> Car_user_id c = User_id u)
                               (cars db))
                (inspections db)))
       \<and> MeResponse_inspections_total (me v db) = 0"
proof -
  let ?own = "filter (\<lambda>c. Car_user_id c = User_id u) (cars db)"
  let ?P = "\<lambda>i. list_ex (\<lambda>c. Car_id c = Inspection_car_id i \<and> Car_user_id c = User_id u) (cars db)"
  have pred: "(Inspection_car_id i \<in> set (map Car_id ?own)) = ?P i" for i
    unfolding list_ex_iff by (fastforce simp: image_iff)
  have tot: "MeResponse_inspections_total (me u db)
               = (if ?own \<noteq> []
                  then int (length (filter (\<lambda>i. Inspection_car_id i \<in> set (map Car_id ?own))
                                           (inspections db)))
                  else 0)"
    by (simp add: me_def Let_def)
  have a: "MeResponse_inspections_total (me u db) = int (length (filter ?P (inspections db)))"
  proof (cases "?own = []")
    case True
    then have "\<not> ?P i" for i
      using pred [of i] by simp
    then have "filter ?P (inspections db) = []"
      unfolding filter_empty_conv by blast
    with True tot show ?thesis by simp
  next
    case False
    have "filter (\<lambda>i. Inspection_car_id i \<in> set (map Car_id ?own)) (inspections db)
            = filter ?P (inspections db)"
      by (rule filter_cong [OF refl]) (rule pred)
    with tot [unfolded if_P [OF False]] show ?thesis by (simp only:)
  qed
  have b: "MeResponse_inspections_total (me v db) = 0"
    using assms by (simp add: me_def Let_def cars_owned_def)
  from a b show ?thesis by (rule conjI)
qed

theorem inspections_total_of_owned_cars_witness:
  "cars_owned ex_B ex_db = []
   \<and> MeResponse_inspections_total (me ex_A ex_db) = 2
   \<and> MeResponse_inspections_total (me ex_B ex_db) = 0"
proof -
  have h: "cars_owned ex_B ex_db = []" by (simp add: cars_owned_def ex_defs)
  have n: "length (filter
                (\<lambda>i. list_ex (\<lambda>c. Car_id c = Inspection_car_id i \<and> Car_user_id c = User_id ex_A)
                               (cars ex_db))
                (inspections ex_db)) = 2"
    by (simp add: ex_defs)
  show ?thesis
    using h n inspections_total_of_owned_cars [OF h, of ex_A] by simp
qed

section \<open>The scenario of the specification\<close>

text \<open>
  The aggregation scenario of section 8 of the specification, computed by the handlers:
  one vehicle without inspections gives the counts 1, 0, 0; an inspection with a bad tyre
  gives 1, 1, 1; a later inspection with four good tyres gives 1, 2, 0.
\<close>

lemma scenario_states:
  "cars ex_s1 = [\<lparr>Car_id = 10, Car_user_id = 1, Car_make = ''Fiat'', Car_model = ''Punto'',
                  Car_year = 2013, Car_plate = ''WA 3''\<rparr>]
   \<and> inspections ex_s1 = []
   \<and> cars ex_s2 = cars ex_s1
   \<and> map Inspection_id (inspections ex_s2) = [100]
   \<and> cars ex_s3 = cars ex_s1
   \<and> map Inspection_id (inspections ex_s3) = [100, 101]"
  by (simp add: ex_s1_def ex_s2_def ex_s3_def ex_s0_def create_car_def create_inspection_def
      db_get_def Let_def ex_defs ex_bad_in_def ex_good_in_def)

lemma scenario_me:
  "MeResponse_cars_assigned (me ex_A ex_s1) = 1
   \<and> MeResponse_inspections_total (me ex_A ex_s1) = 0
   \<and> MeResponse_failed_cars (me ex_A ex_s1) = 0
   \<and> MeResponse_cars_assigned (me ex_A ex_s2) = 1
   \<and> MeResponse_inspections_total (me ex_A ex_s2) = 1
   \<and> MeResponse_failed_cars (me ex_A ex_s2) = 1
   \<and> MeResponse_cars_assigned (me ex_A ex_s3) = 1
   \<and> MeResponse_inspections_total (me ex_A ex_s3) = 2
   \<and> MeResponse_failed_cars (me ex_A ex_s3) = 0"
  by (simp add: me_def car_failed_def first_def order_by_date_desc_def
      ex_s1_def ex_s2_def ex_s3_def ex_s0_def create_car_def create_inspection_def
      db_get_def Let_def ex_defs ex_bad_in_def ex_good_in_def)

section \<open>Registration\<close>

text \<open>
  Claim C6. The handler runs on a validated request. When the email of the request belongs to
  a stored user \<open>e\<close>, it raises status 400 (\<^verbatim>\<open>Email already in use\<close>, the
  duplicate-email failure) and leaves the state as it was, so \<open>e\<close> is still stored. When no
  stored user has the email, it appends one row whose \<^verbatim>\<open>password_hash\<close> is the hash of the
  password and whose other columns come from the request. For the route this reads: a body
  whose address is valid and, once normalised, belongs to a stored user is answered with 400
  and no change of state; a body whose normalised address no stored user has is answered with
  the name, email, phone, role and id of the new row, a response that has no field for the
  password or its hash; a body whose address is not valid is answered with 422 and no change
  of state.
\<close>

theorem register_duplicate_email:
  "(e \<in> set (users db) \<and> User_email e = UserCreate_email usr \<longrightarrow>
      register hash_password new_id usr db
        = (Inl (HTTPException 400 ''Email already in use''), db)
    \<and> e \<in> set (users (snd (register hash_password new_id usr db))))
   \<and> (list_all (\<lambda>x. User_email x \<noteq> UserCreate_email usr) (users db) \<longrightarrow>
      register hash_password new_id usr db
        = (Inr \<lparr>User_id = new_id,
                User_name = UserCreate_name usr,
                User_email = UserCreate_email usr,
                User_phone = UserCreate_phone usr,
                User_password_hash = hash_password (UserCreate_password usr),
                User_role = UserCreate_role usr\<rparr>,
           db\<lparr>users := users db @
                 [\<lparr>User_id = new_id,
                   User_name = UserCreate_name usr,
                   User_email = UserCreate_email usr,
                   User_phone = UserCreate_phone usr,
                   User_password_hash = hash_password (UserCreate_password usr),
                   User_role = UserCreate_role usr\<rparr>]\<rparr>))
   \<and> (validate_email (body_email b) = Some address
      \<and> e \<in> set (users db) \<and> User_email e = address \<longrightarrow>
      post_register validate_email hash_password new_id b db
        = (Inl (Raised (HTTPException 400 ''Email already in use'')), db))
   \<and> (validate_email (body_email b) = Some address
      \<and> list_all (\<lambda>x. User_email x \<noteq> address) (users db) \<longrightarrow>
      post_register validate_email hash_password new_id b db
        = (Inr \<lparr>UserOut_name = body_name b,
                UserOut_email = address,
                UserOut_phone = body_phone b,
                UserOut_role = (case body_role b of None \<Rightarrow> UserRole_user | Some r \<Rightarrow> r),
                UserOut_id = new_id\<rparr>,
           db\<lparr>users := users db @
                 [\<lparr>User_id = new_id,
                   User_name = body_name b,
                   User_email = address,
                   User_phone = body_phone b,
                   User_password_hash = hash_password (body_password b),
                   User_role = (case body_role b of None \<Rightarrow> UserRole_user | Some r \<Rightarrow> r)\<rparr>]\<rparr>))
   \<and> (validate_email (body_email b) = None \<longrightarrow>
      post_register validate_email hash_password new_id b db
        = (Inl RequestValidationError, db))"
proof -
  have dup: "register hash_password new_id w db
               = (Inl (HTTPException 400 ''Email already in use''), db)"
    if "e \<in> set (users db)" and "User_email e = UserCreate_email w" for w
  proof -
    from that
    have "filter (\<lambda>x. User_email x = UserCreate_email w) (users db) \<noteq> []"
      by (auto simp: filter_empty_conv)
    then obtain x where "first (filter (\<lambda>x. User_email x = UserCreate_email w) (users db)) = Some x"
      using first_None_iff [of "filter (\<lambda>x. User_email x = UserCreate_email w) (users db)"]
      by blast
    then show ?thesis by (simp add: register_def)
  qed
  have new: "register hash_password new_id w db
        = (Inr \<lparr>User_id = new_id,
                User_name = UserCreate_name w,
                User_email = UserCreate_email w,
                User_phone = UserCreate_phone w,
                User_password_hash = hash_password (UserCreate_password w),
                User_role = UserCreate_role w\<rparr>,
           db\<lparr>users := users db @
                 [\<lparr>User_id = new_id,
                   User_name = UserCreate_name w,
                   User_email = UserCreate_email w,
                   User_phone = UserCreate_phone w,
                   User_password_hash = hash_password (UserCreate_password w),
                   User_role = UserCreate_role w\<rparr>]\<rparr>)"
    if "list_all (\<lambda>x. User_email x \<noteq> UserCreate_email w) (users db)" for w
  proof -
    from that
    have "first (filter (\<lambda>x. User_email x = UserCreate_email w) (users db)) = None"
      unfolding first_filter_None_iff list_all_iff by blast
    then show ?thesis by (simp add: register_def Let_def)
  qed
  have c1: "register hash_password new_id usr db
        = (Inl (HTTPException 400 ''Email already in use''), db)
    \<and> e \<in> set (users (snd (register hash_password new_id usr db)))"
    if "e \<in> set (users db)" and "User_email e = UserCreate_email usr"
    using dup [OF that] that(1) by simp
  have c3: "post_register validate_email hash_password new_id b db
        = (Inl (Raised (HTTPException 400 ''Email already in use'')), db)"
    if v: "validate_email (body_email b) = Some address"
      and "e \<in> set (users db)" and "User_email e = address"
  proof -
    obtain w where w: "UserCreate_validate validate_email b = Some w" "UserCreate_email w = address"
      using v by (simp add: UserCreate_validate_def)
    from that(2,3) w(2) have "register hash_password new_id w db
               = (Inl (HTTPException 400 ''Email already in use''), db)"
      by (intro dup) simp_all
    with w(1) show ?thesis by (simp add: post_register_def)
  qed
  have c4: "post_register validate_email hash_password new_id b db
        = (Inr \<lparr>UserOut_name = body_name b,
                UserOut_email = address,
                UserOut_phone = body_phone b,
                UserOut_role = (case body_role b of None \<Rightarrow> UserRole_user | Some r \<Rightarrow> r),
                UserOut_id = new_id\<rparr>,
           db\<lparr>users := users db @
                 [\<lparr>User_id = new_id,
                   User_name = body_name b,
                   User_email = address,
                   User_phone = body_phone b,
                   User_password_hash = hash_password (body_password b),
                   User_role = (case body_role b of None \<Rightarrow> UserRole_user | Some r \<Rightarrow> r)\<rparr>]\<rparr>)"
    if v: "validate_email (body_email b) = Some address"
      and fresh: "list_all (\<lambda>x. User_email x \<noteq> address) (users db)"
  proof -
    define w where "w = \<lparr>UserCreate_name = body_name b,
                UserCreate_email = address,
                UserCreate_phone = body_phone b,
                UserCreate_role = (case body_role b of None \<Rightarrow> UserRole_user | Some r \<Rightarrow> r),
                UserCreate_password = body_password b\<rparr>"
    have w: "UserCreate_validate validate_email b = Some w"
      using v by (simp add: UserCreate_validate_def w_def)
    have "list_all (\<lambda>x. User_email x \<noteq> UserCreate_email w) (users db)"
      using fresh by (simp add: w_def)
    from new [OF this] w show ?thesis
      by (simp add: post_register_def UserOut_from_attributes_def w_def)
  qed
  have c5: "post_register validate_email hash_password new_id b db
        = (Inl RequestValidationError, db)"
    if "validate_email (body_email b) = None"
    using that by (simp add: post_register_def UserCreate_validate_def)
  from c1 new [of usr] c3 c4 c5 show ?thesis by blast
qed

text \<open>
  The witness: with the stand-in validator, the address \<open>a@X.com\<close> is normalised to the
  address of A and refused with 400, the address \<open>c@x.com\<close> is new and gives a fourth user
  whose stored hash is that of the password, and \<open>not-an-email\<close> is refused with 422.
\<close>

theorem register_duplicate_email_witness:
  "ex_validate_email (body_email ex_body_dup) = Some ''a@x.com''
   \<and> ex_A \<in> set (users ex_db) \<and> User_email ex_A = ''a@x.com''
   \<and> ex_validate_email (body_email ex_body_new) = Some ''c@x.com''
   \<and> list_all (\<lambda>x. User_email x \<noteq> ''c@x.com'') (users ex_db)
   \<and> ex_validate_email (body_email ex_body_invalid) = None
   \<and> post_register ex_validate_email ex_hash 4 ex_body_dup ex_db
       = (Inl (Raised (HTTPException 400 ''Email already in use'')), ex_db)
   \<and> fst (post_register ex_validate_email ex_hash 4 ex_body_new ex_db)
       = Inr \<lparr>UserOut_name = ''C'', UserOut_email = ''c@x.com'', UserOut_phone = ''400'',
              UserOut_role = UserRole_user, UserOut_id = 4\<rparr>
   \<and> users (snd (post_register ex_validate_email ex_hash 4 ex_body_new ex_db))
       = [ex_A, ex_B, ex_R,
          \<lparr>User_id = 4, User_name = ''C'', User_email = ''c@x.com'', User_phone = ''400'',
           User_password_hash = ''#secret'', User_role = UserRole_user\<rparr>]
   \<and> post_register ex_validate_email ex_hash 4 ex_body_invalid ex_db
       = (Inl RequestValidationError, ex_db)"
proof -
  have v1: "ex_validate_email (body_email ex_body_dup) = Some ''a@x.com''"
    by (simp add: ex_validate_email_def ex_lower_def ex_body_dup_def)
  have h1: "ex_A \<in> set (users ex_db)" by (simp add: ex_db_def)
  have h2: "User_email ex_A = ''a@x.com''" by (simp add: ex_A_def)
  have v2: "ex_validate_email (body_email ex_body_new) = Some ''c@x.com''"
    by (simp add: ex_validate_email_def ex_lower_def ex_body_new_def)
  have h3: "list_all (\<lambda>x. User_email x \<noteq> ''c@x.com'') (users ex_db)"
    by (simp add: ex_defs)
  have v3: "ex_validate_email (body_email ex_body_invalid) = None"
    by (simp add: ex_validate_email_def ex_body_invalid_def)
  note t = register_duplicate_email
    [where validate_email = ex_validate_email and hash_password = ex_hash and new_id = 4
       and db = ex_db]
  from t [where b = ex_body_dup and address = "''a@x.com''" and e = ex_A] v1 h1 h2
  have d: "post_register ex_validate_email ex_hash 4 ex_body_dup ex_db
       = (Inl (Raised (HTTPException 400 ''Email already in use'')), ex_db)"
    by simp
  from t [where b = ex_body_new and address = "''c@x.com''"] v2 h3
  have n: "post_register ex_validate_email ex_hash 4 ex_body_new ex_db
        = (Inr \<lparr>UserOut_name = ''C'', UserOut_email = ''c@x.com'', UserOut_phone = ''400'',
              UserOut_role = UserRole_user, UserOut_id = 4\<rparr>,
           ex_db\<lparr>users := users ex_db @
                 [\<lparr>User_id = 4, User_name = ''C'', User_email = ''c@x.com'',
                   User_phone = ''400'', User_password_hash = ''#secret'',
                   User_role = UserRole_user\<rparr>]\<rparr>)"
    by (simp add: ex_body_new_def ex_hash_def)
  from t [where b = ex_body_invalid] v3
  have i: "post_register ex_validate_email ex_hash 4 ex_body_invalid ex_db
       = (Inl RequestValidationError, ex_db)"
    by simp
  have u: "users ex_db = [ex_A, ex_B, ex_R]" by (simp add: ex_db_def)
  show ?thesis
    using v1 h1 h2 v2 h3 v3 d i by (simp add: n u)
qed

text \<open>
  Claim C8. Registration takes no identity and does not look at the requested role: for every
  validated request with an email no stored user has, the stored user carries the role of the
  request. Validation gives the role of the body, \<^verbatim>\<open>user\<close> when the body omits it, so
  for every body with a valid address that no stored user has, the stored user and the
  response carry that role. A request that asks for \<^verbatim>\<open>admin\<close> creates an admin.
\<close>

theorem register_role_unchecked:
  "(list_all (\<lambda>x. User_email x \<noteq> UserCreate_email usr) (users db) \<longrightarrow>
      (\<exists>row. register hash_password new_id usr db = (Inr row, db\<lparr>users := users db @ [row]\<rparr>)
             \<and> User_role row = UserCreate_role usr))
   \<and> (UserCreate_validate validate_email b = Some usr \<longrightarrow>
      UserCreate_role usr = (case body_role b of None \<Rightarrow> UserRole_user | Some r \<Rightarrow> r))
   \<and> (validate_email (body_email b) = Some address
      \<and> list_all (\<lambda>x. User_email x \<noteq> address) (users db) \<longrightarrow>
      (\<exists>out row. post_register validate_email hash_password new_id b db
                    = (Inr out, db\<lparr>users := users db @ [row]\<rparr>)
             \<and> UserOut_role out = User_role row
             \<and> User_role row = (case body_role b of None \<Rightarrow> UserRole_user | Some r \<Rightarrow> r)))"
proof -
  have new: "\<exists>row. register hash_password new_id w db = (Inr row, db\<lparr>users := users db @ [row]\<rparr>)
             \<and> User_role row = UserCreate_role w"
    if "list_all (\<lambda>x. User_email x \<noteq> UserCreate_email w) (users db)" for w
  proof -
    from that
    have "first (filter (\<lambda>x. User_email x = UserCreate_email w) (users db)) = None"
      unfolding first_filter_None_iff list_all_iff by blast
    then show ?thesis by (simp add: register_def Let_def)
  qed
  have role: "UserCreate_role usr = (case body_role b of None \<Rightarrow> UserRole_user | Some r \<Rightarrow> r)"
    if "UserCreate_validate validate_email b = Some usr"
    using that by (auto simp: UserCreate_validate_def split: option.splits)
  have route: "\<exists>out row. post_register validate_email hash_password new_id b db
                    = (Inr out, db\<lparr>users := users db @ [row]\<rparr>)
             \<and> UserOut_role out = User_role row
             \<and> User_role row = (case body_role b of None \<Rightarrow> UserRole_user | Some r \<Rightarrow> r)"
    if v: "validate_email (body_email b) = Some address"
      and fresh: "list_all (\<lambda>x. User_email x \<noteq> address) (users db)"
  proof -
    from v obtain w where w: "UserCreate_validate validate_email b = Some w"
      and we: "UserCreate_email w = address"
      and wr: "UserCreate_role w = (case body_role b of None \<Rightarrow> UserRole_user | Some r \<Rightarrow> r)"
      by (simp add: UserCreate_validate_def)
    from fresh we have "list_all (\<lambda>x. User_email x \<noteq> UserCreate_email w) (users db)"
      by simp
    from new [OF this] obtain row
      where row: "register hash_password new_id w db = (Inr row, db\<lparr>users := users db @ [row]\<rparr>)"
        and rr: "User_role row = UserCreate_role w"
      by blast
    from w row have "post_register validate_email hash_password new_id b db
                    = (Inr (UserOut_from_attributes row), db\<lparr>users := users db @ [row]\<rparr>)"
      by (simp add: post_register_def)
    moreover have "UserOut_role (UserOut_from_attributes row) = User_role row"
      by (simp add: UserOut_from_attributes_def)
    ultimately show ?thesis using rr wr by auto
  qed
  from new [of usr] role route show ?thesis by blast
qed

text \<open>
  The witness: a body with a new valid address that asks for \<^verbatim>\<open>admin\<close> gives a stored
  admin and an admin in the response.
\<close>

theorem register_role_unchecked_witness:
  "ex_validate_email (body_email ex_body_admin) = Some ''m@x.com''
   \<and> list_all (\<lambda>x. User_email x \<noteq> ''m@x.com'') (users ex_db)
   \<and> body_role ex_body_admin = Some UserRole_admin
   \<and> (\<exists>out row. post_register ex_validate_email ex_hash 4 ex_body_admin ex_db
                     = (Inr out, ex_db\<lparr>users := users ex_db @ [row]\<rparr>)
           \<and> UserOut_role out = UserRole_admin \<and> User_role row = UserRole_admin)"
proof -
  have v: "ex_validate_email (body_email ex_body_admin) = Some ''m@x.com''"
    by (simp add: ex_validate_email_def ex_lower_def ex_body_admin_def)
  have h: "list_all (\<lambda>x. User_email x \<noteq> ''m@x.com'') (users ex_db)"
    by (simp add: ex_defs)
  have r: "body_role ex_body_admin = Some UserRole_admin"
    by (simp add: ex_body_admin_def)
  from register_role_unchecked
    [where validate_email = ex_validate_email and b = ex_body_admin
       and address = "''m@x.com''" and db = ex_db and hash_password = ex_hash and new_id = 4]
    v h
  obtain out row where
    "post_register ex_validate_email ex_hash 4 ex_body_admin ex_db
       = (Inr out, ex_db\<lparr>users := users ex_db @ [row]\<rparr>)"
    "UserOut_role out = User_role row"
    "User_role row = (case body_role ex_body_admin of None \<Rightarrow> UserRole_user | Some r \<Rightarrow> r)"
    by blast
  with v h r show ?thesis by auto
qed

section \<open>Issuing and verifying tokens\<close>

text \<open>
  Claim C7. For every subject \<open>s\<close> and every lifetime, a token issued for \<open>s\<close> verifies
  to \<open>s\<close> at every time up to its expiry, in particular at the time of issue when the
  lifetime is positive. Verification fails with \<open>InvalidToken\<close> at every time past the
  expiry, for every token whose signature does not match its payload, and for every token
  with a malformed payload: one failure for all three.
\<close>

theorem verify_issue_roundtrip:
  assumes in_time: "t \<le> now + ttl"
    and positive: "0 < lifetime"
    and expired: "now + ttl < t'"
    and forged: "Token_signature forged_tok \<noteq> sign secret (Token_payload forged_tok)"
    and malformed: "Token_payload bad_tok = Malformed"
  shows "verify sign secret t (issue sign secret now s ttl) = Inr s
       \<and> verify sign secret issued (issue sign secret issued s lifetime) = Inr s
       \<and> verify sign secret t' (issue sign secret now s ttl) = Inl InvalidToken
       \<and> verify sign secret tv forged_tok = Inl InvalidToken
       \<and> verify sign secret tv bad_tok = Inl InvalidToken"
proof -
  have a: "verify sign secret t (issue sign secret now s ttl) = Inr s"
    using in_time by (simp add: verify_def issue_def)
  have b: "verify sign secret issued (issue sign secret issued s lifetime) = Inr s"
    using positive by (simp add: verify_def issue_def)
  have c: "verify sign secret t' (issue sign secret now s ttl) = Inl InvalidToken"
    using expired by (simp add: verify_def issue_def)
  have d: "verify sign secret tv forged_tok = Inl InvalidToken"
    using forged by (simp add: verify_def)
  have e: "verify sign secret tv bad_tok = Inl InvalidToken"
    using malformed by (simp add: verify_def)
  show ?thesis
    by (intro conjI) (rule a, rule b, rule c, rule d, rule e)
qed

theorem verify_issue_roundtrip_witness:
  "(1000::int) \<le> 0 + 3600 \<and> (0::int) < 3600 \<and> (0::int) + 3600 < 3601
   \<and> Token_signature (issue ex_sign ''other key'' 0 1 3600)
        \<noteq> ex_sign ''key'' (Token_payload (issue ex_sign ''other key'' 0 1 3600))
   \<and> Token_payload \<lparr>Token_payload = Malformed, Token_signature = ex_sign ''key'' Malformed\<rparr>
        = Malformed
   \<and> verify ex_sign ''key'' 1000 (issue ex_sign ''key'' 0 1 3600) = Inr 1
   \<and> verify ex_sign ''key'' 0 (issue ex_sign ''key'' 0 1 3600) = Inr 1
   \<and> verify ex_sign ''key'' 3601 (issue ex_sign ''key'' 0 1 3600) = Inl InvalidToken
   \<and> verify ex_sign ''key'' 1000 (issue ex_sign ''other key'' 0 1 3600) = Inl InvalidToken
   \<and> verify ex_sign ''key'' 1000
        \<lparr>Token_payload = Malformed, Token_signature = ex_sign ''key'' Malformed\<rparr>
        = Inl InvalidToken"
proof -
  have h1: "(1000::int) \<le> 0 + 3600" by simp
  have h2: "(0::int) < 3600" by simp
  have h3: "(0::int) + 3600 < 3601" by simp
  have h4: "Token_signature (issue ex_sign ''other key'' 0 1 3600)
        \<noteq> ex_sign ''key'' (Token_payload (issue ex_sign ''other key'' 0 1 3600))"
    by (simp add: issue_def ex_sign_def)
  have h5: "Token_payload \<lparr>Token_payload = Malformed, Token_signature = ex_sign ''key'' Malformed\<rparr>
        = Malformed"
    by simp
  note th = verify_issue_roundtrip
    [where t = 1000 and now = 0 and ttl = 3600 and lifetime = 3600 and t' = 3601
       and sign = ex_sign and secret = "''key''" and s = 1 and issued = 0 and tv = 1000
       and forged_tok = "issue ex_sign ''other key'' 0 1 3600"
       and bad_tok = "\<lparr>Token_payload = Malformed, Token_signature = ex_sign ''key'' Malformed\<rparr>"]
  from th [OF h1 h2 h3 h4 h5] show ?thesis
    using h1 h2 h3 h4 h5 by simp
qed

section \<open>Updating a vehicle\<close>

text \<open>
  Claim C9. A successful update of a vehicle overwrites \<^verbatim>\<open>make\<close>, \<^verbatim>\<open>model\<close>,
  \<^verbatim>\<open>year\<close> and \<^verbatim>\<open>plate\<close> of the row with the given key and nothing else: the row
  keeps its \<^verbatim>\<open>id\<close> and its \<^verbatim>\<open>user_id\<close>, the other tables are as they were, every
  other key leads to the row it led to before, and every key leads to a row with the owner it
  had before. No update transfers ownership.
\<close>

theorem update_car_keeps_owner:
  assumes ok: "update_car car_id car_in u db = (Inr car', db')"
  shows "\<exists>car. db_get Car_id (cars db) car_id = Some car
           \<and> car' = car\<lparr>Car_make := CarCreate_make car_in,
                         Car_model := CarCreate_model car_in,
                         Car_year := CarCreate_year car_in,
                         Car_plate := CarCreate_plate car_in\<rparr>
           \<and> Car_id car' = car_id
           \<and> Car_user_id car' = Car_user_id car
           \<and> users db' = users db
           \<and> inspections db' = inspections db
           \<and> db_get Car_id (cars db') car_id = Some car'
           \<and> (\<forall>k. k \<noteq> car_id \<longrightarrow> db_get Car_id (cars db') k = db_get Car_id (cars db) k)
           \<and> (\<forall>k. map_option Car_user_id (db_get Car_id (cars db') k)
                    = map_option Car_user_id (db_get Car_id (cars db) k))"
proof -
  from ok obtain car where car: "db_get Car_id (cars db) car_id = Some car"
    by (cases "db_get Car_id (cars db) car_id") (simp_all add: update_car_def)
  define new where "new = car\<lparr>Car_make := CarCreate_make car_in,
                         Car_model := CarCreate_model car_in,
                         Car_year := CarCreate_year car_in,
                         Car_plate := CarCreate_plate car_in\<rparr>"
  from db_get_Some_key [OF car] have key: "Car_id car = car_id" by simp
  then have nkey: "Car_id new = car_id" by (simp add: new_def)
  from ok car have res: "car' = new"
    and st: "db' = db\<lparr>cars := map (\<lambda>c. if Car_id c = car_id then new else c) (cars db)\<rparr>"
    by (auto simp: update_car_def new_def Let_def split: if_splits)
  have look: "db_get Car_id (cars db') k
                = (if k = car_id then map_option (\<lambda>_. new) (db_get Car_id (cars db) car_id)
                   else db_get Car_id (cars db) k)" for k
    by (simp add: st db_get_replace [of Car_id new car_id, OF nkey])
  have own: "Car_user_id new = Car_user_id car" by (simp add: new_def)
  have a: "db_get Car_id (cars db') car_id = Some car'"
    by (simp add: look car res)
  have b: "\<forall>k. k \<noteq> car_id \<longrightarrow> db_get Car_id (cars db') k = db_get Car_id (cars db) k"
    by (simp add: look)
  have c: "\<forall>k. map_option Car_user_id (db_get Car_id (cars db') k)
                = map_option Car_user_id (db_get Car_id (cars db) k)"
    by (simp add: look car own)
  have d: "users db' = users db" "inspections db' = inspections db"
    by (simp_all add: st)
  show ?thesis
    using car res nkey own a b c d unfolding new_def by blast
qed

theorem update_car_keeps_owner_witness:
  "update_car 10 ex_car_in ex_R ex_db
     = (Inr (ex_V1\<lparr>Car_make := ''Fiat'', Car_model := ''Punto'', Car_year := 2013,
                   Car_plate := ''WA 3''\<rparr>),
        ex_db\<lparr>cars := [ex_V1\<lparr>Car_make := ''Fiat'', Car_model := ''Punto'', Car_year := 2013,
                             Car_plate := ''WA 3''\<rparr>, ex_V2]\<rparr>)
   \<and> Car_user_id (ex_V1\<lparr>Car_make := ''Fiat'', Car_model := ''Punto'', Car_year := 2013,
                         Car_plate := ''WA 3''\<rparr>) = 1
   \<and> User_id ex_R = 3
   \<and> (\<exists>car. db_get Car_id (cars ex_db) 10 = Some car
          \<and> Car_user_id (ex_V1\<lparr>Car_make := ''Fiat'', Car_model := ''Punto'', Car_year := 2013,
                                Car_plate := ''WA 3''\<rparr>) = Car_user_id car)"
proof -
  have h: "update_car 10 ex_car_in ex_R ex_db
     = (Inr (ex_V1\<lparr>Car_make := ''Fiat'', Car_model := ''Punto'', Car_year := 2013,
                   Car_plate := ''WA 3''\<rparr>),
        ex_db\<lparr>cars := [ex_V1\<lparr>Car_make := ''Fiat'', Car_model := ''Punto'', Car_year := 2013,
                             Car_plate := ''WA 3''\<rparr>, ex_V2]\<rparr>)"
    by (simp add: update_car_def db_get_def Let_def ex_defs)
  have o: "Car_user_id (ex_V1\<lparr>Car_make := ''Fiat'', Car_model := ''Punto'', Car_year := 2013,
                         Car_plate := ''WA 3''\<rparr>) = 1"
    by (simp add: ex_defs)
  have r: "User_id ex_R = 3" by (simp add: ex_defs)
  from update_car_keeps_owner [OF h] have
    "\<exists>car. db_get Car_id (cars ex_db) 10 = Some car
          \<and> Car_user_id (ex_V1\<lparr>Car_make := ''Fiat'', Car_model := ''Punto'', Car_year := 2013,
                                Car_plate := ''WA 3''\<rparr>) = Car_user_id car"
    by blast
  with h o r show ?thesis by blast
qed

section \<open>The foreign key of inspections\<close>

text \<open>The foreign key in terms of the stored keys.\<close>

lemma fk_ok_iff:
  "fk_ok db \<longleftrightarrow> (\<forall>i\<in>set (inspections db). Inspection_car_id i \<in> Car_id ` set (cars db))"
proof -
  have "(db_get Car_id (cars db) k \<noteq> None) = (k \<in> Car_id ` set (cars db))" for k
    unfolding db_get_None_iff by force
  then show ?thesis
    unfolding fk_ok_def list_all_iff by simp
qed

lemma fk_ok_parent:
  assumes "fk_ok db" and "db_get Inspection_id (inspections db) k = Some insp"
  shows "\<exists>car. db_get Car_id (cars db) (Inspection_car_id insp) = Some car"
proof -
  from db_get_Some_key [OF assms(2)] have "insp \<in> set (inspections db)" by simp
  with assms(1) have "db_get Car_id (cars db) (Inspection_car_id insp) \<noteq> None"
    unfolding fk_ok_def list_all_iff by blast
  then show ?thesis by blast
qed

text \<open>
  Every handler that writes keeps the foreign key: creating a car adds a key, updating a car
  keeps the keys, deleting a car deletes its inspections with it, and an inspection is
  created only under a stored car and keeps its \<^verbatim>\<open>car_id\<close> when it is updated.
\<close>

lemma fk_ok_register:
  "fk_ok db \<Longrightarrow> fk_ok (snd (register hash_password new_id usr db))"
  by (simp add: fk_ok_iff register_def Let_def split: option.splits)

lemma fk_ok_create_car:
  "fk_ok db \<Longrightarrow> fk_ok (snd (create_car new_id car_in u db))"
  by (auto simp: fk_ok_iff create_car_def Let_def)

lemma fk_ok_update_car:
  assumes "fk_ok db"
  shows "fk_ok (snd (update_car car_id car_in u db))"
proof (cases "db_get Car_id (cars db) car_id")
  case None
  with assms show ?thesis by (simp add: update_car_def)
next
  case (Some car)
  define new where "new = car\<lparr>Car_make := CarCreate_make car_in,
                         Car_model := CarCreate_model car_in,
                         Car_year := CarCreate_year car_in,
                         Car_plate := CarCreate_plate car_in\<rparr>"
  define m where "m = map (\<lambda>c. if Car_id c = car_id then new else c) (cars db)"
  from db_get_Some_key [OF Some] have nkey: "Car_id new = car_id" by (simp add: new_def)
  have "set (map Car_id m) = set (map Car_id (cars db))"
    unfolding m_def by (simp only: replace_keeps_keys [of Car_id new car_id, OF nkey])
  then have k: "Car_id ` set m = Car_id ` set (cars db)" by simp
  have c: "cars (db\<lparr>cars := m\<rparr>) = m" and i: "inspections (db\<lparr>cars := m\<rparr>) = inspections db"
    by simp_all
  have upd: "fk_ok (db\<lparr>cars := m\<rparr>)"
    unfolding fk_ok_iff c i k using assms [unfolded fk_ok_iff] .
  have "snd (update_car car_id car_in u db) = db
        \<or> snd (update_car car_id car_in u db) = db\<lparr>cars := m\<rparr>"
    using Some by (simp add: update_car_def Let_def m_def new_def)
  with assms upd show ?thesis by auto
qed

lemma fk_ok_delete_car:
  assumes "fk_ok db"
  shows "fk_ok (snd (delete_car car_id u db))"
proof (cases "db_get Car_id (cars db) car_id")
  case None
  with assms show ?thesis by (simp add: delete_car_def)
next
  case (Some car)
  with assms show ?thesis
    by (auto simp: fk_ok_iff delete_car_def image_iff)
qed

lemma fk_ok_create_inspection:
  assumes "fk_ok db"
  shows "fk_ok (snd (create_inspection new_id car_id insp_in u db))"
proof (cases "db_get Car_id (cars db) car_id")
  case None
  with assms show ?thesis by (simp add: create_inspection_def)
next
  case (Some car)
  from db_get_Some_key [OF Some] have "car_id \<in> Car_id ` set (cars db)" by force
  with assms Some show ?thesis
    by (auto simp: fk_ok_iff create_inspection_def Let_def)
qed

lemma fk_ok_update_inspection:
  assumes "fk_ok db"
  shows "fk_ok (snd (update_inspection inspection_id insp_in u db))"
proof (cases "db_get Inspection_id (inspections db) inspection_id")
  case None
  with assms show ?thesis by (simp add: update_inspection_def)
next
  case (Some insp)
  from db_get_Some_key [OF Some] have mem: "insp \<in> set (inspections db)" by simp
  with assms have "Inspection_car_id insp \<in> Car_id ` set (cars db)"
    unfolding fk_ok_iff by blast
  with assms Some show ?thesis
    by (auto simp: fk_ok_iff update_inspection_def Let_def split: option.splits)
qed

lemma fk_ok_delete_inspection:
  assumes "fk_ok db"
  shows "fk_ok (snd (delete_inspection inspection_id u db))"
  using assms
  by (auto simp: fk_ok_iff delete_inspection_def split: option.splits)

text \<open>
  Claim C10. In a state where every stored inspection refers to a stored car,
  \<^verbatim>\<open>update_inspection\<close> and \<^verbatim>\<open>delete_inspection\<close> never raise
  \<^verbatim>\<open>404 Car not found\<close>, and they raise a 404 exactly when no inspection has the given
  key.
\<close>

theorem car_not_found_unreachable:
  assumes fk: "fk_ok db"
  shows "fst (update_inspection k insp_in u db) \<noteq> Inl (HTTPException 404 ''Car not found'')
       \<and> fst (delete_inspection k u db) \<noteq> Inl (HTTPException 404 ''Car not found'')
       \<and> ((\<exists>d. fst (update_inspection k insp_in u db) = Inl (HTTPException 404 d))
            \<longleftrightarrow> db_get Inspection_id (inspections db) k = None)
       \<and> ((\<exists>d. fst (delete_inspection k u db) = Inl (HTTPException 404 d))
            \<longleftrightarrow> db_get Inspection_id (inspections db) k = None)"
proof (cases "db_get Inspection_id (inspections db) k")
  case None
  then show ?thesis
    by (simp add: update_inspection_def delete_inspection_def)
next
  case (Some insp)
  from fk_ok_parent [OF fk Some] obtain car
    where car: "db_get Car_id (cars db) (Inspection_car_id insp) = Some car" by blast
  show ?thesis
  proof (cases "User_role u \<noteq> UserRole_admin \<and> Car_user_id car \<noteq> User_id u")
    case True
    with Some car show ?thesis
      by (simp add: update_inspection_def delete_inspection_def)
  next
    case False
    with Some car show ?thesis
      by (auto simp: update_inspection_def delete_inspection_def Let_def)
  qed
qed

theorem car_not_found_unreachable_witness:
  "fk_ok ex_db
   \<and> db_get Inspection_id (inspections ex_db) 100 = Some ex_I1
   \<and> db_get Inspection_id (inspections ex_db) 88 = None
   \<and> fst (update_inspection 100 ex_insp_in ex_B ex_db) = Inl (HTTPException 403 ''Not your car'')
   \<and> fst (delete_inspection 100 ex_A ex_db) = Inr ''deleted''
   \<and> fst (update_inspection 100 ex_insp_in ex_B ex_db) \<noteq> Inl (HTTPException 404 ''Car not found'')
   \<and> fst (delete_inspection 100 ex_A ex_db) \<noteq> Inl (HTTPException 404 ''Car not found'')
   \<and> (\<exists>d. fst (delete_inspection 88 ex_A ex_db) = Inl (HTTPException 404 d))"
proof -
  have h: "fk_ok ex_db" by (simp add: fk_ok_def db_get_def ex_defs)
  have g1: "db_get Inspection_id (inspections ex_db) 100 = Some ex_I1"
    by (simp add: db_get_def ex_defs)
  have g2: "db_get Inspection_id (inspections ex_db) 88 = None"
    by (simp add: db_get_def ex_defs)
  have e1: "fst (update_inspection 100 ex_insp_in ex_B ex_db) = Inl (HTTPException 403 ''Not your car'')"
    by (simp add: update_inspection_def db_get_def ex_defs)
  have e2: "fst (delete_inspection 100 ex_A ex_db) = Inr ''deleted''"
    by (simp add: delete_inspection_def db_get_def ex_defs)
  show ?thesis
    using h g1 g2 e1 e2
      car_not_found_unreachable [OF h, of 100 ex_insp_in ex_B]
      car_not_found_unreachable [OF h, of 100 ex_insp_in ex_A]
      car_not_found_unreachable [OF h, of 88 ex_insp_in ex_A]
    by simp
qed

text \<open>
  Without the foreign key the branch is taken: an inspection of a car that is not stored
  exists, and updating it raises \<^verbatim>\<open>404 Car not found\<close>.
\<close>

lemma car_not_found_without_foreign_key:
  "\<not> fk_ok (ex_db\<lparr>cars := []\<rparr>)
   \<and> db_get Inspection_id (inspections (ex_db\<lparr>cars := []\<rparr>)) 100 = Some ex_I1
   \<and> fst (update_inspection 100 ex_insp_in ex_R (ex_db\<lparr>cars := []\<rparr>))
       = Inl (HTTPException 404 ''Car not found'')"
  by (simp add: fk_ok_def update_inspection_def db_get_def ex_defs)

end

